theory Spec2Isabelle
  imports Complex_Main "HOL-Library.Multiset"
begin

section \<open>Python values, errors and dictionaries\<close>

text \<open>
  The exceptions the modelled code can raise.  \<open>ValueError m\<close> is a \<^verbatim>\<open>ValueError\<close>;
  for the one raised by \<^verbatim>\<open>ClusterGenerator.fit_predict\<close>, whose message is a fixed
  (Russian) prefix meaning "unknown algorithm:" followed by the algorithm name,
  \<open>m\<close> is that name; for the others \<open>m\<close> tells the cause.
  \<open>KeyError k\<close> is a failed dictionary lookup of the key \<open>k\<close>, \<open>IndexError\<close> an
  out-of-range index into an array, \<open>TypeError\<close> the use of an unhashable value as
  a dictionary key or of a missing value as an array, \<open>AttributeError\<close> a method call
  on a value that lacks it, \<open>OSError\<close> a failure of the file system.
  \<open>LibraryError\<close> stands for whatever an external library (the clustering
  algorithm, the face-analysis model, OpenCV) raises.
\<close>

datatype error =
    ValueError string
  | KeyError string
  | IndexError
  | TypeError
  | AttributeError
  | OSError string
  | LibraryError string

text \<open>An image is an opaque handle to a pixel array.\<close>

type_synonym image = nat

type_synonym box = "int \<times> int \<times> int \<times> int"

text \<open>
  The values stored in a face dictionary: strings, floats, a Python list of ints,
  NumPy arrays (vectors, matrices, integer boxes) and images with a rectangle drawn.
  Floats are only carried around and compared; they are modelled as reals.
\<close>

datatype pyval =
    PStr string
  | PFloat real
  | PIntList "int list"
  | PBox box
  | PArray "real list"
  | PMatrix "real list list"
  | PImage image box

text \<open>Strings and floats are hashable; Python lists and NumPy arrays are not.\<close>

fun hashable :: "pyval \<Rightarrow> bool" where
  "hashable (PStr s) = True"
| "hashable (PFloat r) = True"
| "hashable (PIntList xs) = False"
| "hashable (PBox b) = False"
| "hashable (PArray v) = False"
| "hashable (PMatrix m) = False"
| "hashable (PImage i b) = False"

text \<open>
  A Python dictionary keeps its keys in insertion order: an association list with
  distinct keys.  \<open>dict_set\<close> is \<^verbatim>\<open>d[k] = v\<close>: an existing key keeps its place, a new
  key goes to the end.  Lookup \<^verbatim>\<open>d[k]\<close> is \<^const>\<open>map_of\<close>, and \<open>None\<close> is a
  \<^verbatim>\<open>KeyError\<close>.
\<close>

type_synonym ('k, 'v) dict = "('k \<times> 'v) list"

fun dict_set :: "'k \<Rightarrow> 'v \<Rightarrow> ('k, 'v) dict \<Rightarrow> ('k, 'v) dict" where
  "dict_set k v [] = [(k, v)]"
| "dict_set k v ((k', v') # d) =
     (if k' = k then (k, v) # d else (k', v') # dict_set k v d)"

definition getitem :: "(string, 'v) dict \<Rightarrow> string \<Rightarrow> error + 'v" where
  "getitem d k = (case map_of d k of None \<Rightarrow> Inl (KeyError k) | Some v \<Rightarrow> Inr v)"

subsection \<open>Formatting integers\<close>

text \<open>
  Python's \<^verbatim>\<open>str\<close> of an int, as used by an f-string: decimal digits without
  leading zeros, with a minus sign for a negative number.
\<close>

definition digit_char :: "nat \<Rightarrow> char" where
  "digit_char d = ''0123456789'' ! d"

function str_nat :: "nat \<Rightarrow> string" where
  "str_nat n = (if n < 10 then [digit_char n]
                else str_nat (n div 10) @ [digit_char (n mod 10)])"
  by pat_completeness auto
termination
  by (relation "measure (\<lambda>n. n)") auto

declare str_nat.simps [simp del]

definition str_int :: "int \<Rightarrow> string" where
  "str_int i = (if i < 0 then CHR ''-'' # str_nat (nat (- i)) else str_nat (nat i))"

subsection \<open>Paths and file names\<close>

text \<open>POSIX \<^verbatim>\<open>os.path.join\<close> of two components and \<^verbatim>\<open>os.path.basename\<close>.\<close>

definition os_path_join :: "string \<Rightarrow> string \<Rightarrow> string" where
  "os_path_join a b =
     (if b \<noteq> [] \<and> hd b = CHR ''/'' then b
      else if a = [] \<or> last a = CHR ''/'' then a @ b
      else a @ ''/'' @ b)"

definition os_path_basename :: "string \<Rightarrow> string" where
  "os_path_basename p = rev (takeWhile (\<lambda>c. c \<noteq> CHR ''/'') (rev p))"

text \<open>
  \<^verbatim>\<open>str.lower\<close> on the ASCII letters (no other character lower-cases to a character
  of the three suffixes tested below) and \<^verbatim>\<open>str.endswith\<close> with a tuple of suffixes.
\<close>

definition lower_char :: "char \<Rightarrow> char" where
  "lower_char c =
     (case map_of (zip ''ABCDEFGHIJKLMNOPQRSTUVWXYZ'' ''abcdefghijklmnopqrstuvwxyz'') c of
        None \<Rightarrow> c | Some l \<Rightarrow> l)"

definition lower :: "string \<Rightarrow> string" where
  "lower s = map lower_char s"

definition endswith :: "string \<Rightarrow> string list \<Rightarrow> bool" where
  "endswith s sufs =
     (\<exists>suf \<in> set sufs. length suf \<le> length s \<and> drop (length s - length suf) s = suf)"

section \<open>The external collaborators\<close>

text \<open>
  A detection of the face-analysis model: the fields the extractor reads from an
  InsightFace \<^verbatim>\<open>Face\<close> object.
\<close>

record detection =
  det_score :: real
  bbox :: "real \<times> real \<times> real \<times> real"
  kps :: "real list list"
  normed_embedding :: "real list"

text \<open>
  The world outside the program, each call with the exception it may raise:
  \<open>py_int\<close> and \<open>py_float\<close> are Python's \<^verbatim>\<open>int\<close> and \<^verbatim>\<open>float\<close> on the text of a form
  field; \<open>makedirs\<close> is \<^verbatim>\<open>os.makedirs\<close>, \<open>file_save\<close> the saving of an upload under a
  path and \<open>imwrite\<close> is \<^verbatim>\<open>cv2.imwrite\<close> (\<open>None\<close> when they succeed); \<open>imread\<close> is
  \<^verbatim>\<open>cv2.imread\<close>, which raises nothing and yields \<open>None\<close> for an image that cannot be
  loaded; \<open>prepare\<close> is the construction of the \<^verbatim>\<open>FaceExtractor\<close> (loading the model)
  for a device; \<open>app_get\<close> is the face-analysis model on a loaded image; \<open>listdir\<close> is
  \<^verbatim>\<open>os.listdir\<close>.  Writing a file is taken not to change what \<open>imread\<close> returns for
  the path of an upload.
\<close>

record world =
  py_int :: "string \<Rightarrow> error + int"
  py_float :: "string \<Rightarrow> error + real"
  makedirs :: "string \<Rightarrow> error option"
  file_save :: "string \<Rightarrow> error option"
  imwrite :: "string \<Rightarrow> error option"
  imread :: "string \<Rightarrow> image option"
  prepare :: "int \<Rightarrow> error option"
  app_get :: "image \<Rightarrow> error + detection list"
  listdir :: "string \<Rightarrow> error + string list"

text \<open>
  The scikit-learn estimators the Cluster Engine constructs, with their arguments:
  \<^verbatim>\<open>DBSCAN(eps, min_samples, metric)\<close> and \<^verbatim>\<open>HDBSCAN(min_cluster_size, metric)\<close>.
  The library's \<^verbatim>\<open>fit_predict\<close> is a parameter of the model: it yields one label per
  row or raises.
\<close>

datatype estimator =
    DBSCAN real int string
  | HDBSCAN int string

type_synonym clustering_lib = "estimator \<Rightarrow> real list list \<Rightarrow> error + int list"

text \<open>
  What a run did to the clustering side, in order: \<open>Engine\<close> records a call of
  \<^verbatim>\<open>ClusterGenerator.fit_predict\<close> with its embeddings, \<open>Algorithm\<close> a call of the
  library estimator's \<^verbatim>\<open>fit_predict\<close>.
\<close>

datatype event =
    Engine "real list list"
  | Algorithm estimator "real list list"

section \<open>face\_extractor.py\<close>

text \<open>The dictionary yielded for each accepted face (a fixed set of keys).\<close>

record face_data =
  bbox :: box
  kps :: "real list list"
  det_score :: real
  embedding :: "real list"
  boxed_image :: "image \<times> box"
  original_image_path :: string

definition face_data_dict :: "face_data \<Rightarrow> (string, pyval) dict" where
  "face_data_dict f =
     [(''bbox'', PBox (face_data.bbox f)),
      (''kps'', PMatrix (face_data.kps f)),
      (''det_score'', PFloat (face_data.det_score f)),
      (''embedding'', PArray (face_data.embedding f)),
      (''boxed_image'', PImage (fst (boxed_image f)) (snd (boxed_image f))),
      (''original_image_path'', PStr (face_data.original_image_path f))]"

text \<open>\<^verbatim>\<open>astype(int)\<close> on a float: truncation towards zero.\<close>

definition astype_int :: "real \<Rightarrow> int" where
  "astype_int r = (if r < 0 then \<lceil>r\<rceil> else \<lfloor>r\<rfloor>)"

text \<open>The loop over the detections of one loaded image.\<close>

fun extract_loop :: "image \<Rightarrow> string \<Rightarrow> int \<Rightarrow> real \<Rightarrow> detection list \<Rightarrow> face_data list" where
  "extract_loop img image_path min_size det_thresh [] = []"
| "extract_loop img image_path min_size det_thresh (face # faces) =
     (if detection.det_score face < det_thresh
      then extract_loop img image_path min_size det_thresh faces
      else
        (case detection.bbox face of (x1, y1, x2, y2) \<Rightarrow>
          let bb = (astype_int x1, astype_int y1, astype_int x2, astype_int y2);
              w = astype_int x2 - astype_int x1;
              h = astype_int y2 - astype_int y1
          in if w < min_size \<or> h < min_size
             then extract_loop img image_path min_size det_thresh faces
             else \<lparr> face_data.bbox = bb,
                    face_data.kps = detection.kps face,
                    face_data.det_score = detection.det_score face,
                    embedding = normed_embedding face,
                    boxed_image = (img, bb),
                    original_image_path = image_path \<rparr>
                  # extract_loop img image_path min_size det_thresh faces))"

text \<open>
  \<^verbatim>\<open>FaceExtractor.extract_faces_from_image_path\<close>: the faces the generator yields,
  in order.  An image that cannot be loaded yields nothing.
\<close>

text \<open>
  \<^verbatim>\<open>FaceExtractor.extract_faces_from_image_path\<close>: the faces the generator yields,
  in order, or the exception of the model.  An image that cannot be loaded yields
  nothing; the model runs once, before the first face is yielded, and nothing
  catches what it raises.
\<close>

definition extract_faces_from_image_path ::
    "world \<Rightarrow> string \<Rightarrow> int \<Rightarrow> real \<Rightarrow> error + face_data list" where
  "extract_faces_from_image_path wld image_path min_size det_thresh =
     (case imread wld image_path of
        None \<Rightarrow> Inr []
      | Some img \<Rightarrow>
          (case app_get wld img of
             Inl e \<Rightarrow> Inl e
           | Inr faces \<Rightarrow> Inr (extract_loop img image_path min_size det_thresh faces)))"

text \<open>Lines 50-52: the loop of \<^verbatim>\<open>extract_faces_from_folder\<close> over the image paths.\<close>

fun extract_paths ::
    "world \<Rightarrow> int \<Rightarrow> real \<Rightarrow> string list \<Rightarrow> error + face_data list" where
  "extract_paths wld min_size det_thresh [] = Inr []"
| "extract_paths wld min_size det_thresh (image_path # image_paths) =
     (case extract_faces_from_image_path wld image_path min_size det_thresh of
        Inl e \<Rightarrow> Inl e
      | Inr faces \<Rightarrow>
          (case extract_paths wld min_size det_thresh image_paths of
             Inl e \<Rightarrow> Inl e
           | Inr others \<Rightarrow> Inr (faces @ others)))"

definition extract_faces_from_folder ::
    "world \<Rightarrow> string \<Rightarrow> int \<Rightarrow> real \<Rightarrow> error + face_data list" where
  "extract_faces_from_folder wld folder_path min_size det_thresh =
     (case listdir wld folder_path of
        Inl e \<Rightarrow> Inl e
      | Inr filenames \<Rightarrow>
          (let image_paths =
                 map (os_path_join folder_path)
                   (filter (\<lambda>filename. endswith (lower filename) [''.jpg'', ''.jpeg'', ''.png''])
                      filenames)
           in extract_paths wld min_size det_thresh image_paths))"

section \<open>cluster\_generator.py\<close>

text \<open>The fields \<^verbatim>\<open>ClusterGenerator.__init__\<close> stores; it checks none of them.\<close>

record ClusterGenerator =
  algorithm :: string
  eps :: real
  min_samples :: int
  metric :: string

definition ClusterGenerator_init :: "string \<Rightarrow> real \<Rightarrow> int \<Rightarrow> string \<Rightarrow> ClusterGenerator" where
  "ClusterGenerator_init algorithm' eps' min_samples' metric' =
     \<lparr> algorithm = algorithm', eps = eps', min_samples = min_samples', metric = metric' \<rparr>"

text \<open>
  \<^verbatim>\<open>ClusterGenerator.fit_predict\<close>, with the log of what it called.  The estimator
  is constructed from the stored fields and its \<^verbatim>\<open>fit_predict\<close> receives the
  embeddings as they are; any other algorithm name raises \<^verbatim>\<open>ValueError\<close>.
\<close>

definition fit_predict ::
    "clustering_lib \<Rightarrow> ClusterGenerator \<Rightarrow> real list list \<Rightarrow> event list \<times> (error + int list)" where
  "fit_predict lib self embeddings =
     (if algorithm self = ''dbscan'' then
        (let clustering = DBSCAN (eps self) (min_samples self) (metric self)
         in ([Engine embeddings, Algorithm clustering embeddings],
             lib clustering embeddings))
      else if algorithm self = ''hdbscan'' then
        (let clustering = HDBSCAN (min_samples self) (metric self)
         in ([Engine embeddings, Algorithm clustering embeddings],
             lib clustering embeddings))
      else ([Engine embeddings], Inl (ValueError (algorithm self))))"

text \<open>Line 46: the name of the bucket a label goes to.\<close>

definition cluster_name :: "int \<Rightarrow> string" where
  "cluster_name label = (if label \<noteq> - 1 then ''person_'' @ str_int label else ''noise'')"

type_synonym clusters = "(string, pyval list) dict"
type_synonym embeddings_dict = "(pyval, real list) dict"

text \<open>
  Lines 47-49: create the bucket on first use, then append the path to the list
  stored under the name.
\<close>

definition cluster_append :: "string \<Rightarrow> pyval \<Rightarrow> clusters \<Rightarrow> error + clusters" where
  "cluster_append name path clusters =
     (let clusters1 = (if map_of clusters name = None then dict_set name [] clusters
                       else clusters)
      in case map_of clusters1 name of
           None \<Rightarrow> Inl (KeyError name)
         | Some members \<Rightarrow> Inr (dict_set name (members @ [path]) clusters1))"

text \<open>
  The loop of \<^verbatim>\<open>generate_clusters\<close> over \<^verbatim>\<open>enumerate(faces)\<close>, from position \<open>i\<close>
  on, with the two dictionaries built so far.  The statements fail in the source's
  order: the lookup of \<open>path_key\<close>, the index into \<open>labels\<close>, the index into
  \<open>embeddings\<close>, the use of the path as a dictionary key.
\<close>

fun clusters_loop ::
    "(string, pyval) dict list \<Rightarrow> nat \<Rightarrow> int list \<Rightarrow> real list list \<Rightarrow> string \<Rightarrow>
     clusters \<Rightarrow> embeddings_dict \<Rightarrow> error + (clusters \<times> embeddings_dict)" where
  "clusters_loop [] i labels embeddings path_key clusters embeddings_dict =
     Inr (clusters, embeddings_dict)"
| "clusters_loop (face # faces) i labels embeddings path_key clusters embeddings_dict =
     (case map_of face path_key of
        None \<Rightarrow> Inl (KeyError path_key)
      | Some path \<Rightarrow>
          if length labels \<le> i then Inl IndexError
          else if length embeddings \<le> i then Inl IndexError
          else if \<not> hashable path then Inl TypeError
          else
            (case cluster_append (cluster_name (labels ! i)) path clusters of
               Inl e \<Rightarrow> Inl e
             | Inr clusters' \<Rightarrow>
                 clusters_loop faces (Suc i) labels embeddings path_key clusters'
                   (dict_set path (embeddings ! i) embeddings_dict)))"

text \<open>The values of the dictionaries the program returns.\<close>

datatype message = Files_not_found | Faces_not_detected | Exception_text error

datatype rval =
    RBool bool
  | RInt int
  | RFloat real
  | RStr string
  | RMsg message
  | RClusters clusters
  | REmbeddings embeddings_dict
  | RMeta "(string, (string, pyval) dict) dict"

text \<open>\<^verbatim>\<open>ClusterGenerator.generate_clusters\<close>, with the log of \<^const>\<open>fit_predict\<close>.\<close>

definition generate_clusters ::
    "clustering_lib \<Rightarrow> ClusterGenerator \<Rightarrow> (string, pyval) dict list \<Rightarrow> real list list \<Rightarrow>
     string \<Rightarrow> event list \<times> (error + (string, rval) dict)" where
  "generate_clusters lib self faces embeddings path_key =
     (case fit_predict lib self embeddings of
        (calls, Inl e) \<Rightarrow> (calls, Inl e)
      | (calls, Inr labels) \<Rightarrow>
          (calls,
           case clusters_loop faces 0 labels embeddings path_key [] [] of
             Inl e \<Rightarrow> Inl e
           | Inr (clusters, embeddings_dict) \<Rightarrow>
               Inr [(''success'', RBool True),
                    (''clusters'', RClusters clusters),
                    (''embeddings'', REmbeddings embeddings_dict)]))"

section \<open>NumPy\<close>

text \<open>
  \<^verbatim>\<open>np.array\<close> on a list of vectors: a matrix with the vectors as rows.  Vectors of
  unequal length do not form a matrix, and \<^verbatim>\<open>np.array\<close> raises \<^verbatim>\<open>ValueError\<close>
  (inhomogeneous shape).
\<close>

definition np_array :: "real list list \<Rightarrow> error + real list list" where
  "np_array rows =
     (if list_all (\<lambda>r. length r = length (hd rows)) rows then Inr rows
      else Inl (ValueError ''inhomogeneous shape''))"

section \<open>execute.py\<close>

record args =
  min_size :: int
  det_thresh :: real
  device :: int
  image_folder :: string
  output_folder :: string
  algorithm :: string
  eps :: real
  min_samples :: int
  metric :: string

text \<open>
  How a run of the command line ends: \<open>Exited\<close> after reporting that no face was
  found, \<open>Uncaught e\<close> with an exception nobody handles, \<open>Printed v\<close> after printing.
\<close>

datatype outcome = Exited | Uncaught error | Printed rval

text \<open>\<^verbatim>\<open>main\<close>, on the parsed arguments.  It has no exception handler.\<close>

definition main :: "world \<Rightarrow> clustering_lib \<Rightarrow> args \<Rightarrow> outcome" where
  "main wld lib a =
     (case prepare wld (device a) of
        Some e \<Rightarrow> Uncaught e
      | None \<Rightarrow>
          (let cluster_gen = ClusterGenerator_init (args.algorithm a) (args.eps a)
                               (args.min_samples a) (args.metric a)
           in case extract_faces_from_folder wld (image_folder a) (min_size a)
                     (det_thresh a) of
                Inl e \<Rightarrow> Uncaught e
              | Inr faces \<Rightarrow>
                  if faces = [] then Exited
                  else
                    (case np_array (map face_data.embedding faces) of
                       Inl e \<Rightarrow> Uncaught e
                     | Inr embeddings \<Rightarrow>
                         (case snd (generate_clusters lib cluster_gen
                                      (map face_data_dict faces) embeddings
                                      ''original_image_path'') of
                            Inl e \<Rightarrow> Uncaught e
                          | Inr result \<Rightarrow>
                              (case getitem result ''celebrity_matches'' of
                                 Inl e \<Rightarrow> Uncaught e
                               | Inr v \<Rightarrow> Printed v)))))"

section \<open>process.py\<close>

definition cluster_generator :: ClusterGenerator where
  "cluster_generator = ClusterGenerator_init ''dbscan'' 0.4 1 ''cosine''"

definition UPLOAD_FOLDER :: string where
  "UPLOAD_FOLDER = ''../uploads''"

text \<open>The dictionary \<^verbatim>\<open>face_info\<close> built for each face (a fixed set of keys).\<close>

record face_info =
  face_id :: string
  original_image_path :: string
  original_image_name :: string
  boxed_image_path :: string
  bbox :: "int list"
  det_score :: real
  embedding :: "real list"

definition face_info_dict :: "face_info \<Rightarrow> (string, pyval) dict" where
  "face_info_dict f =
     [(''face_id'', PStr (face_id f)),
      (''original_image_path'', PStr (face_info.original_image_path f)),
      (''original_image_name'', PStr (original_image_name f)),
      (''boxed_image_path'', PStr (boxed_image_path f)),
      (''bbox'', PIntList (face_info.bbox f)),
      (''det_score'', PFloat (face_info.det_score f)),
      (''embedding'', PArray (face_info.embedding f))]"

fun tolist :: "box \<Rightarrow> int list" where
  "tolist (x1, y1, x2, y2) = [x1, y1, x2, y2]"

text \<open>
  Lines 35-39: the task id and the two detection parameters, from the form of the
  request.  A missing field takes its default; the text of a present field is
  converted, which may raise.
\<close>

definition parse_form :: "world \<Rightarrow> (string, string) dict \<Rightarrow> error + (string \<times> int \<times> real)" where
  "parse_form wld form =
     (let task_id = (case map_of form ''task_id'' of None \<Rightarrow> ''unknown'' | Some s \<Rightarrow> s)
      in case (case map_of form ''min_size'' of None \<Rightarrow> Inr 30 | Some s \<Rightarrow> py_int wld s) of
           Inl e \<Rightarrow> Inl e
         | Inr min_size' \<Rightarrow>
             (case (case map_of form ''det_thresh'' of
                      None \<Rightarrow> Inr 0.5 | Some s \<Rightarrow> py_float wld s) of
                Inl e \<Rightarrow> Inl e
              | Inr det_thresh' \<Rightarrow> Inr (task_id, min_size', det_thresh')))"

text \<open>
  Lines 56-62: the uploads that have a file name are saved under the task folder,
  in order; a failed save ends the loop.  A file is given by its name; the empty
  name stands for an upload without one.
\<close>

fun save_files :: "world \<Rightarrow> string \<Rightarrow> string list \<Rightarrow> string list \<Rightarrow> error + string list" where
  "save_files wld task_folder [] saved_paths = Inr saved_paths"
| "save_files wld task_folder (filename # files) saved_paths =
     (if filename \<noteq> [] then
        (let filepath = os_path_join task_folder filename
         in case file_save wld filepath of
              Some e \<Rightarrow> Inl e
            | None \<Rightarrow> save_files wld task_folder files (saved_paths @ [filepath]))
      else save_files wld task_folder files saved_paths)"

text \<open>
  Lines 73-102: the faces of one image are appended to \<open>all_faces\<close>, each after its
  boxed image was written.
\<close>

fun faces_loop ::
    "world \<Rightarrow> string \<Rightarrow> string \<Rightarrow> string \<Rightarrow> string \<Rightarrow> face_data list \<Rightarrow> face_info list \<Rightarrow>
     nat \<Rightarrow> error + face_info list" where
  "faces_loop wld task_id task_folder image_path image_name [] all_faces face_counter =
     Inr all_faces"
| "faces_loop wld task_id task_folder image_path image_name (fd # rest) all_faces face_counter =
     (let face_id' = task_id @ ''_img'' @ str_nat (length all_faces) @ ''_face''
                       @ str_nat face_counter;
          boxed_image_filename = face_id' @ ''_boxed.jpg'';
          boxed_image_path' = os_path_join task_folder boxed_image_filename
      in case imwrite wld boxed_image_path' of
           Some e \<Rightarrow> Inl e
         | None \<Rightarrow>
             (let original_relative = os_path_join task_id (os_path_basename image_path);
                  boxed_relative = os_path_join task_id boxed_image_filename;
                  face_info' = \<lparr> face_id = face_id',
                                 face_info.original_image_path = original_relative,
                                 original_image_name = image_name,
                                 boxed_image_path = boxed_relative,
                                 face_info.bbox = tolist (face_data.bbox fd),
                                 face_info.det_score = face_data.det_score fd,
                                 face_info.embedding = face_data.embedding fd \<rparr>
              in faces_loop wld task_id task_folder image_path image_name rest
                   (all_faces @ [face_info']) (face_counter + 1)))"

text \<open>
  Lines 70-105: the loop over the saved images.  Nothing in it catches an
  exception: the first one ends the loop.
\<close>

fun images_loop ::
    "world \<Rightarrow> string \<Rightarrow> string \<Rightarrow> int \<Rightarrow> real \<Rightarrow> string list \<Rightarrow> face_info list \<Rightarrow>
     error + face_info list" where
  "images_loop wld task_id task_folder min_size' det_thresh' [] all_faces = Inr all_faces"
| "images_loop wld task_id task_folder min_size' det_thresh' (image_path # rest) all_faces =
     (case extract_faces_from_image_path wld image_path min_size' det_thresh' of
        Inl e \<Rightarrow> Inl e
      | Inr fds \<Rightarrow>
          (case faces_loop wld task_id task_folder image_path (os_path_basename image_path)
                  fds all_faces 0 of
             Inl e \<Rightarrow> Inl e
           | Inr all_faces' \<Rightarrow>
               images_loop wld task_id task_folder min_size' det_thresh' rest all_faces'))"

text \<open>Lines 136-143: the per-face metadata, keyed by face id.\<close>

fun metadata_loop ::
    "face_info list \<Rightarrow> (string, (string, pyval) dict) dict \<Rightarrow> (string, (string, pyval) dict) dict" where
  "metadata_loop [] faces_metadata = faces_metadata"
| "metadata_loop (face # faces) faces_metadata =
     metadata_loop faces
       (dict_set (face_id face)
          [(''original_image'', PStr (face_info.original_image_path face)),
           (''boxed_image'', PStr (boxed_image_path face)),
           (''bbox'', PIntList (face_info.bbox face)),
           (''confidence'', PFloat (face_info.det_score face))]
          faces_metadata)"

text \<open>
  Line 151, \<^verbatim>\<open>len([k for k in clusters.keys() if k != 'noise'])\<close>, on the value stored
  under \<^verbatim>\<open>'clusters'\<close>: a dictionary has keys, any other value has no such method.
\<close>

fun count_persons :: "rval \<Rightarrow> error + nat" where
  "count_persons (RClusters c) = Inr (length (filter (\<lambda>k. k \<noteq> ''noise'') (map fst c)))"
| "count_persons (REmbeddings d) =
     Inr (length (filter (\<lambda>k. k \<noteq> PStr ''noise'') (map fst d)))"
| "count_persons (RMeta m) = Inr (length (filter (\<lambda>k. k \<noteq> ''noise'') (map fst m)))"
| "count_persons (RBool b) = Inl AttributeError"
| "count_persons (RInt i) = Inl AttributeError"
| "count_persons (RFloat r) = Inl AttributeError"
| "count_persons (RStr s) = Inl AttributeError"
| "count_persons (RMsg m) = Inl AttributeError"

text \<open>A response: the HTTP status and the JSON object.\<close>

type_synonym response = "nat \<times> (string, rval) dict"

text \<open>Lines 173-181: the handler of every exception.\<close>

definition failure :: "error \<Rightarrow> response" where
  "failure e = (500, [(''success'', RBool False), (''error'', RMsg (Exception_text e))])"

text \<open>Lines 132-171: the response of a run whose clustering returned \<open>result\<close>.\<close>

definition respond ::
    "string \<Rightarrow> face_info list \<Rightarrow> (string, rval) dict \<Rightarrow> error + (string, rval) dict" where
  "respond task_id all_faces result =
     (case getitem result ''clusters'' of
        Inl e \<Rightarrow> Inl e
      | Inr clusters \<Rightarrow>
          (case getitem result ''embeddings'' of
             Inl e \<Rightarrow> Inl e
           | Inr embeddings_dict \<Rightarrow>
               (let faces_metadata = metadata_loop all_faces []
                in case count_persons clusters of
                     Inl e \<Rightarrow> Inl e
                   | Inr unique_persons \<Rightarrow>
                       Inr [(''success'', RBool True),
                            (''task_id'', RStr task_id),
                            (''clusters'', clusters),
                            (''embeddings'', embeddings_dict),
                            (''faces_metadata'', RMeta faces_metadata),
                            (''total_faces'', RInt (int (length all_faces))),
                            (''unique_persons'', RInt (int unique_persons))])))"

text \<open>
  Lines 51-171, after the guard on the files: what the \<^verbatim>\<open>try\<close> block computes for a
  request with files, the log of the clustering calls and either the response or
  the exception raised.
\<close>

definition run_batch ::
    "world \<Rightarrow> clustering_lib \<Rightarrow> string list \<Rightarrow> string \<Rightarrow> int \<Rightarrow> real \<Rightarrow>
     event list \<times> (error + response)" where
  "run_batch wld lib files task_id min_size' det_thresh' =
     (let task_folder = os_path_join UPLOAD_FOLDER task_id
      in case makedirs wld task_folder of
           Some e \<Rightarrow> ([], Inl e)
         | None \<Rightarrow>
             (case save_files wld task_folder files [] of
                Inl e \<Rightarrow> ([], Inl e)
              | Inr saved_paths \<Rightarrow>
                  (case images_loop wld task_id task_folder min_size' det_thresh'
                          saved_paths [] of
                     Inl e \<Rightarrow> ([], Inl e)
                   | Inr all_faces \<Rightarrow>
                       if length all_faces = 0 then
                         ([], Inr (200, [(''success'', RBool False),
                                         (''error'', RMsg Faces_not_detected),
                                         (''total_faces'', RInt 0)]))
                       else
                         (case np_array (map face_info.embedding all_faces) of
                            Inl e \<Rightarrow> ([], Inl e)
                          | Inr embeddings_array \<Rightarrow>
                              (case generate_clusters lib cluster_generator
                                      (map face_info_dict all_faces) embeddings_array
                                      ''face_id'' of
                                 (calls, Inl e) \<Rightarrow> (calls, Inl e)
                               | (calls, Inr result) \<Rightarrow>
                                   (calls,
                                    case respond task_id all_faces result of
                                      Inl e \<Rightarrow> Inl e
                                    | Inr body \<Rightarrow> Inr (200, body)))))))"

text \<open>
  \<^verbatim>\<open>process_images\<close> on the uploaded files (by file name) and the form of the
  request: the log of the clustering calls and the response.  The conversions of
  the form fields come first, inside the \<^verbatim>\<open>try\<close>; then the guard on the files; every
  exception ends in the handler of lines 173-181.
\<close>

definition process_images ::
    "world \<Rightarrow> clustering_lib \<Rightarrow> string list \<Rightarrow> (string, string) dict \<Rightarrow>
     event list \<times> response" where
  "process_images wld lib files form =
     (case parse_form wld form of
        Inl e \<Rightarrow> ([], failure e)
      | Inr (task_id, min_size', det_thresh') \<Rightarrow>
          if files = [] then
            ([], (400, [(''success'', RBool False), (''error'', RMsg Files_not_found)]))
          else
            (case run_batch wld lib files task_id min_size' det_thresh' of
               (calls, Inl e) \<Rightarrow> (calls, failure e)
             | (calls, Inr response) \<Rightarrow> (calls, response)))"

subsection \<open>The comparison of two embeddings\<close>

text \<open>
  Modelled from the spec: \<^verbatim>\<open>sklearn.metrics.pairwise.cosine_similarity\<close>, which
  \<^verbatim>\<open>compare_faces\<close> calls, is not part of the repository.  The spec gives the
  comparison the cosine convention of the Cluster Engine and a value in \<open>[-1, 1]\<close>:
  the cosine of the angle between the two vectors, computed as scikit-learn
  documents it, as the dot product of the two vectors after each is divided by its
  Euclidean norm (a vector of norm zero is left as it is).  The two vectors must have
  the same, non-zero number of components; otherwise the function raises
  \<^verbatim>\<open>ValueError\<close>.  Floats are modelled as reals.
\<close>

definition dot :: "real list \<Rightarrow> real list \<Rightarrow> real" where
  "dot u v = (\<Sum>(x, y)\<leftarrow>zip u v. x * y)"

definition l2_norm :: "real list \<Rightarrow> real" where
  "l2_norm v = sqrt (\<Sum>x\<leftarrow>v. x * x)"

definition normalize_row :: "real list \<Rightarrow> real list" where
  "normalize_row v = (if l2_norm v = 0 then v else map (\<lambda>x. x / l2_norm v) v)"

definition cosine_similarity :: "real list \<Rightarrow> real list \<Rightarrow> error + real" where
  "cosine_similarity u v =
     (if u = [] \<or> v = [] \<or> length u \<noteq> length v then Inl (ValueError ''incompatible dimension'')
      else Inr (dot (normalize_row u) (normalize_row v)))"

text \<open>
  \<^verbatim>\<open>compare_faces\<close> on the JSON object of the request, whose fields hold lists of
  numbers.  \<^verbatim>\<open>np.array\<close> of a missing field is an array, not \<^verbatim>\<open>None\<close>, so the test of
  line 210 never succeeds and the similarity function raises on it.  Every exception
  ends in the handler of lines 222-223.
\<close>

definition compare_faces :: "(string, real list) dict \<Rightarrow> response" where
  "compare_faces data =
     (case (case map_of data ''embedding1'' of
              None \<Rightarrow> Inl TypeError
            | Some emb1 \<Rightarrow>
                (case map_of data ''embedding2'' of
                   None \<Rightarrow> Inl TypeError
                 | Some emb2 \<Rightarrow> cosine_similarity emb1 emb2)) of
        Inl e \<Rightarrow> (500, [(''error'', RMsg (Exception_text e))])
      | Inr similarity \<Rightarrow>
          (200, [(''similarity'', RFloat similarity),
                 (''match'', RBool (similarity > 0.6))]))"

section \<open>Concrete inputs\<close>

text \<open>
  A small world, a stand-in for the clustering library and a command line, used to
  run the model on concrete inputs.  The first image shows three faces, one of them
  below the confidence threshold; the second image shows one face; on the third
  image the face-analysis model raises; no other path can be loaded.  Only the
  texts \<^verbatim>\<open>30\<close> and \<^verbatim>\<open>0.5\<close> are converted; every file operation succeeds.  The stand-in
  library rejects rows of unequal length and otherwise puts the rows equal to the
  first row into cluster 0 and marks the others as noise.  The general theorems
  hold for every world and every library function.
\<close>

definition example_det1 :: detection where
  "example_det1 = \<lparr> detection.det_score = 0.9, detection.bbox = (10, 10, 110, 120),
                     detection.kps = [], normed_embedding = [1, 0] \<rparr>"

definition example_det2 :: detection where
  "example_det2 = \<lparr> detection.det_score = 0.8, detection.bbox = (0.5, 0.5, 90.7, 80),
                     detection.kps = [], normed_embedding = [0, 1] \<rparr>"

definition example_det3 :: detection where
  "example_det3 = \<lparr> detection.det_score = 0.3, detection.bbox = (0, 0, 200, 200),
                     detection.kps = [], normed_embedding = [0, 1] \<rparr>"

definition example_world :: world where
  "example_world =
     \<lparr> py_int = (\<lambda>s. if s = ''30'' then Inr 30 else Inl (ValueError s)),
       py_float = (\<lambda>s. if s = ''0.5'' then Inr 0.5 else Inl (ValueError s)),
       makedirs = (\<lambda>p. None),
       file_save = (\<lambda>p. None),
       imwrite = (\<lambda>p. None),
       imread = (\<lambda>p. if p = ''../uploads/t1/a.jpg'' then Some 1
                       else if p = ''../uploads/t1/b.png'' then Some 2
                       else if p = ''../uploads/t1/d.jpg'' then Some 3 else None),
       prepare = (\<lambda>d. None),
       app_get = (\<lambda>img. if img = 1 then Inr [example_det1, example_det3, example_det2]
                         else if img = 2 then Inr [example_det2]
                         else Inl (LibraryError ''detector'')),
       listdir = (\<lambda>d. Inr [''a.jpg'', ''notes.txt'', ''c.JPG'']) \<rparr>"

definition example_form :: "(string, string) dict" where
  "example_form = [(''task_id'', ''t1''), (''min_size'', ''30''), (''det_thresh'', ''0.5'')]"

definition example_lib :: clustering_lib where
  "example_lib clustering rows =
     (if list_all (\<lambda>r. length r = length (hd rows)) rows
      then Inr (map (\<lambda>r. if r = hd rows then 0 else - 1) rows)
      else Inl (LibraryError ''rows of unequal length''))"

definition example_args :: args where
  "example_args =
     \<lparr> min_size = 30, det_thresh = 0.5, device = - 1, image_folder = ''../uploads/t1'',
       output_folder = ''Faces/'', args.algorithm = ''kmeans'', args.eps = 0.4,
       args.min_samples = 2, args.metric = ''cosine'' \<rparr>"

section \<open>Dictionaries and the assembly loop\<close>

text \<open>The equations that evaluate the model on concrete inputs.\<close>

lemmas example_defs = example_det1_def example_det2_def example_det3_def example_world_def
  example_lib_def example_args_def example_form_def

lemmas model_defs = process_images_def run_batch_def parse_form_def generate_clusters_def
  fit_predict_def np_array_def
  cluster_generator_def ClusterGenerator_init_def UPLOAD_FOLDER_def
  os_path_join_def os_path_basename_def extract_faces_from_image_path_def
  extract_faces_from_folder_def astype_int_def cluster_append_def cluster_name_def
  str_int_def str_nat.simps digit_char_def face_info_dict_def face_data_dict_def
  respond_def getitem_def failure_def main_def endswith_def lower_def lower_char_def Let_def


lemma map_of_dict_set: "map_of (dict_set k v d) = (map_of d)(k \<mapsto> v)"
  by (induction k v d rule: dict_set.induct) (auto simp: fun_eq_iff)

lemma keys_dict_set:
  "map fst (dict_set k v d) = (if k \<in> fst ` set d then map fst d else map fst d @ [k])"
  by (induction k v d rule: dict_set.induct) force+

lemma distinct_keys_dict_set:
  "distinct (map fst d) \<Longrightarrow> distinct (map fst (dict_set k v d))"
  by (simp add: keys_dict_set)

lemma members_dict_set_new:
  "concat (map snd (dict_set k [] d)) = concat (map snd d)" if "map_of d k = None"
  using that by (induction d) (auto split: if_splits)

lemma members_dict_set_append:
  "map_of d k = Some ms \<Longrightarrow>
   mset (concat (map snd (dict_set k (ms @ [p]) d))) = add_mset p (mset (concat (map snd d)))"
  by (induction d) (auto split: if_splits)

lemma cluster_append_eq:
  "cluster_append name p c =
     Inr (dict_set name ((case map_of c name of None \<Rightarrow> [] | Some ms \<Rightarrow> ms) @ [p])
            (if map_of c name = None then dict_set name [] c else c))"
  by (simp add: cluster_append_def map_of_dict_set split: option.splits)

lemma cluster_append_keys:
  "cluster_append name p c = Inr c' \<Longrightarrow> distinct (map fst c) \<Longrightarrow> distinct (map fst c')"
  by (auto simp: cluster_append_eq distinct_keys_dict_set)

lemma cluster_append_members:
  assumes "cluster_append name p c = Inr c'"
  shows "mset (concat (map snd c')) = add_mset p (mset (concat (map snd c)))"
proof (cases "map_of c name")
  case None
  then have c': "c' = dict_set name ([] @ [p]) (dict_set name [] c)"
    using assms by (simp add: cluster_append_eq)
  have "map_of (dict_set name [] c) name = Some []"
    by (simp add: map_of_dict_set)
  then show ?thesis
    unfolding c' using None by (simp only: members_dict_set_append members_dict_set_new)
next
  case (Some ms)
  then have c': "c' = dict_set name (ms @ [p]) c"
    using assms by (simp add: cluster_append_eq)
  show ?thesis
    unfolding c' using Some by (rule members_dict_set_append)
qed

lemma cluster_append_lookup:
  assumes "cluster_append name p c = Inr c'"
  shows "map_of c' name = Some ((case map_of c name of None \<Rightarrow> [] | Some ms \<Rightarrow> ms) @ [p])"
    and "k \<noteq> name \<Longrightarrow> map_of c' k = map_of c k"
  using assms by (auto simp: cluster_append_eq map_of_dict_set)


lemma dict_set_new: "k \<notin> fst ` set d \<Longrightarrow> dict_set k v d = d @ [(k, v)]"
  by (induction d) auto

lemma clusters_loop_returns:
  "list_all2 (\<lambda>f p. map_of f pk = Some p \<and> hashable p) faces ids \<Longrightarrow>
   i + length faces \<le> length labels \<Longrightarrow> i + length faces \<le> length E \<Longrightarrow>
   \<exists>r. clusters_loop faces i labels E pk c e = Inr r"
proof (induction arbitrary: i c e rule: list_all2_induct)
  case Nil
  show ?case by simp
next
  case (Cons f faces p ids)
  have "\<exists>r. clusters_loop faces (Suc i) labels E pk c1 e1 = Inr r" for c1 e1
    using Cons.prems by (intro Cons.IH) simp_all
  with Cons.hyps(1) Cons.prems show ?case
    by (simp add: cluster_append_eq)
qed

lemma clusters_loop_step:
  assumes "clusters_loop (f # faces) i labels E pk c e = Inr r"
  obtains p c1 where "map_of f pk = Some p" "i < length labels" "i < length E" "hashable p"
    "cluster_append (cluster_name (labels ! i)) p c = Inr c1"
    "clusters_loop faces (Suc i) labels E pk c1 (dict_set p (E ! i) e) = Inr r"
  using assms by (auto split: option.splits if_splits sum.splits)

lemma clusters_loop_keys:
  "clusters_loop faces i labels E pk c e = Inr (c', e') \<Longrightarrow>
   distinct (map fst c) \<Longrightarrow> distinct (map fst c')"
proof (induction faces arbitrary: i c e)
  case Nil
  then show ?case by simp
next
  case (Cons f faces)
  from Cons.prems(1) show ?case
  proof (rule clusters_loop_step)
    fix p c1
    assume "cluster_append (cluster_name (labels ! i)) p c = Inr c1"
      and "clusters_loop faces (Suc i) labels E pk c1 (dict_set p (E ! i) e) = Inr (c', e')"
    then show ?thesis
      using Cons.IH Cons.prems(2) cluster_append_keys by blast
  qed
qed

lemma clusters_loop_members:
  "list_all2 (\<lambda>f p. map_of f pk = Some p) faces ids \<Longrightarrow>
   clusters_loop faces i labels E pk c e = Inr (c', e') \<Longrightarrow>
   mset (concat (map snd c')) = mset (concat (map snd c)) + mset ids"
proof (induction arbitrary: i c e rule: list_all2_induct)
  case Nil
  then show ?case by simp
next
  case (Cons f faces p ids)
  from Cons.prems show ?case
  proof (rule clusters_loop_step)
    fix q c1
    assume q: "map_of f pk = Some q"
      and c1: "cluster_append (cluster_name (labels ! i)) q c = Inr c1"
      and rest: "clusters_loop faces (Suc i) labels E pk c1 (dict_set q (E ! i) e) = Inr (c', e')"
    from q Cons.hyps(1) have "q = p" by simp
    with c1 have "mset (concat (map snd c1)) = add_mset p (mset (concat (map snd c)))"
      by (simp add: cluster_append_members)
    with Cons.IH [OF rest] show ?thesis by simp
  qed
qed

lemma clusters_loop_embeddings:
  "list_all2 (\<lambda>f p. map_of f pk = Some p) faces ids \<Longrightarrow>
   clusters_loop faces i labels E pk c e = Inr (c', e') \<Longrightarrow>
   distinct ids \<Longrightarrow> set ids \<inter> fst ` set e = {} \<Longrightarrow>
   e' = e @ zip ids (take (length faces) (drop i E))"
proof (induction arbitrary: i c e rule: list_all2_induct)
  case Nil
  then show ?case by simp
next
  case (Cons f faces p ids)
  from Cons.prems(1) show ?case
  proof (rule clusters_loop_step)
    fix q c1
    assume q: "map_of f pk = Some q" and i: "i < length E"
      and rest: "clusters_loop faces (Suc i) labels E pk c1 (dict_set q (E ! i) e) = Inr (c', e')"
    from q Cons.hyps(1) have [simp]: "q = p" by simp
    from Cons.prems(3) have new: "p \<notin> fst ` set e" by auto
    then have e1: "dict_set q (E ! i) e = e @ [(p, E ! i)]"
      by (simp add: dict_set_new)
    have "set ids \<inter> fst ` set (e @ [(p, E ! i)]) = {}"
      using Cons.prems(2,3) by auto
    with Cons.IH [OF rest [unfolded e1] ] Cons.prems(2)
    have "e' = (e @ [(p, E ! i)]) @ zip ids (take (length faces) (drop (Suc i) E))"
      by simp
    with i show ?thesis
      by (simp add: Cons_nth_drop_Suc [symmetric])
  qed
qed

lemma clusters_loop_mono:
  "clusters_loop faces i labels E pk c e = Inr (c', e') \<Longrightarrow> map_of c k = Some ms \<Longrightarrow>
   \<exists>ms'. map_of c' k = Some ms' \<and> set ms \<subseteq> set ms'"
proof (induction faces arbitrary: i c e ms)
  case Nil
  then show ?case by simp
next
  case (Cons f faces)
  from Cons.prems(1) show ?case
  proof (rule clusters_loop_step)
    fix p c1
    assume c1: "cluster_append (cluster_name (labels ! i)) p c = Inr c1"
      and rest: "clusters_loop faces (Suc i) labels E pk c1 (dict_set p (E ! i) e) = Inr (c', e')"
    have "\<exists>ms1. map_of c1 k = Some ms1 \<and> set ms \<subseteq> set ms1"
      using cluster_append_lookup(1) [OF c1] cluster_append_lookup(2) [OF c1, of k] Cons.prems(2)
      by (cases "k = cluster_name (labels ! i)") auto
    then obtain ms1 where "map_of c1 k = Some ms1" "set ms \<subseteq> set ms1" by blast
    with Cons.IH [OF rest, of ms1] show ?thesis by auto
  qed
qed

lemma clusters_loop_bucket:
  "clusters_loop faces i labels E pk c e = Inr (c', e') \<Longrightarrow> j < length faces \<Longrightarrow>
   map_of (faces ! j) pk = Some p \<Longrightarrow>
   \<exists>ms. map_of c' (cluster_name (labels ! (i + j))) = Some ms \<and> p \<in> set ms"
proof (induction faces arbitrary: i j c e)
  case Nil
  then show ?case by simp
next
  case (Cons f faces)
  from Cons.prems(1) show ?case
  proof (rule clusters_loop_step)
    fix q c1
    assume q: "map_of f pk = Some q"
      and c1: "cluster_append (cluster_name (labels ! i)) q c = Inr c1"
      and rest: "clusters_loop faces (Suc i) labels E pk c1 (dict_set q (E ! i) e) = Inr (c', e')"
    show ?thesis
    proof (cases j)
      case 0
      with q Cons.prems(3) have "q = p" by simp
      with cluster_append_lookup(1) [OF c1]
      obtain ms1 where "map_of c1 (cluster_name (labels ! i)) = Some ms1" "p \<in> set ms1"
        by auto
      with clusters_loop_mono [OF rest] 0 show ?thesis by fastforce
    next
      case (Suc j')
      with Cons.prems(2,3) Cons.IH [OF rest, of j'] show ?thesis by simp
    qed
  qed
qed

lemma clusters_loop_take:
  "clusters_loop faces i (take (i + length faces) labels) E pk c e =
   clusters_loop faces i labels E pk c e"
proof (induction faces arbitrary: i c e)
  case Nil
  show ?case by simp
next
  case (Cons f faces)
  have rec: "clusters_loop faces (Suc i) (take (Suc (i + length faces)) labels) E pk c1 e1 =
        clusters_loop faces (Suc i) labels E pk c1 e1" for c1 e1
    using Cons.IH [of "Suc i" c1 e1] by simp
  show ?case
  proof (cases "length labels \<le> i")
    case True
    then have "length (take (i + length (f # faces)) labels) \<le> i" by simp
    with True show ?thesis
      by (simp split: option.split)
  next
    case False
    then have "\<not> length (take (Suc (i + length faces)) labels) \<le> i"
      and "take (Suc (i + length faces)) labels ! i = labels ! i"
      by simp_all
    with False show ?thesis
      by (simp add: rec split: option.split sum.split)
  qed
qed

section \<open>Auxiliary facts about the two pipelines\<close>

lemma generate_clusters_result:
  assumes "generate_clusters lib self faces E pk = (calls, Inr result)"
  obtains labels c e where "fit_predict lib self E = (calls, Inr labels)"
    "clusters_loop faces 0 labels E pk [] [] = Inr (c, e)"
    "result = [(''success'', RBool True), (''clusters'', RClusters c),
               (''embeddings'', REmbeddings e)]"
  using assms unfolding generate_clusters_def
  by (auto split: prod.splits sum.splits)

lemma count_without:
  "distinct ks \<Longrightarrow> length (filter (\<lambda>k. k \<noteq> n) ks) = card (set ks - {n})"
proof -
  assume "distinct ks"
  then have "length (filter (\<lambda>k. k \<noteq> n) ks) = card ({k. k \<noteq> n} \<inter> set ks)"
    by (rule distinct_length_filter)
  also have "{k. k \<noteq> n} \<inter> set ks = set ks - {n}"
    by auto
  finally show ?thesis .
qed

lemma clusters_loop_short:
  "i \<le> length labels \<Longrightarrow> length labels < i + length faces \<Longrightarrow>
   \<exists>err. clusters_loop faces i labels E pk c e = Inl err"
proof (induction faces arbitrary: i c e)
  case Nil
  then show ?case by simp
next
  case (Cons f faces)
  show ?case
  proof (cases "length labels \<le> i")
    case True
    then show ?thesis
      by (simp split: option.split)
  next
    case False
    then have "\<exists>err. clusters_loop faces (Suc i) labels E pk c1 e1 = Inl err" for c1 e1
      using Cons.prems by (intro Cons.IH) simp_all
    with False show ?thesis
      by (simp add: cluster_append_eq split: option.split)
  qed
qed

lemma clusters_loop_IndexError:
  "list_all2 (\<lambda>f p. map_of f pk = Some p \<and> hashable p) faces ids \<Longrightarrow>
   i \<le> length labels \<Longrightarrow> length labels < i + length faces \<Longrightarrow>
   length labels \<le> length E \<Longrightarrow>
   clusters_loop faces i labels E pk c e = Inl IndexError"
proof (induction arbitrary: i c e rule: list_all2_induct)
  case Nil
  then show ?case by simp
next
  case (Cons f faces p ids)
  show ?case
  proof (cases "length labels \<le> i")
    case True
    with Cons.hyps(1) show ?thesis
      by simp
  next
    case False
    then have "clusters_loop faces (Suc i) labels E pk c1 e1 = Inl IndexError" for c1 e1
      using Cons.prems by (intro Cons.IH) simp_all
    with False Cons.hyps(1) Cons.prems(3) show ?thesis
      by (simp add: cluster_append_eq)
  qed
qed













subsection \<open>The cosine of two vectors\<close>

lemma dot_Cons [simp]: "dot (x # u) (y # v) = x * y + dot u v"
  by (simp add: dot_def)

lemma dot_Nil [simp]: "dot [] v = 0" "dot u [] = 0"
  by (simp_all add: dot_def)

lemma dot_self: "dot u u = (\<Sum>x\<leftarrow>u. x * x)"
  by (induction u) simp_all

lemma sum_squares_nonneg: "0 \<le> (\<Sum>x\<leftarrow>u. x * x)" for u :: "real list"
  by (induction u) simp_all

lemma dot_scale_left: "dot (map (\<lambda>x. x / a) u) v = dot u v / a"
proof (induction u arbitrary: v)
  case Nil
  show ?case by simp
next
  case (Cons x u)
  then show ?case
    by (cases v) (simp_all add: add_divide_distrib)
qed

lemma dot_scale_right: "dot u (map (\<lambda>x. x / a) v) = dot u v / a"
proof (induction u arbitrary: v)
  case Nil
  show ?case by simp
next
  case (Cons x u)
  then show ?case
    by (cases v) (simp_all add: add_divide_distrib)
qed

lemma cross_term:
  fixes x y d a b :: real
  assumes d: "d\<^sup>2 \<le> a * b" and a: "0 \<le> a" and b: "0 \<le> b"
  shows "2 * (x * y) * d \<le> x\<^sup>2 * b + y\<^sup>2 * a"
proof (rule power2_le_imp_le)
  have "(2 * (x * y) * d)\<^sup>2 = 4 * (x\<^sup>2 * y\<^sup>2) * d\<^sup>2"
    by (simp add: power2_eq_square)
  also have "\<dots> \<le> 4 * (x\<^sup>2 * y\<^sup>2) * (a * b)"
    using d by (intro mult_left_mono) simp_all
  also have "\<dots> \<le> (x\<^sup>2 * b + y\<^sup>2 * a)\<^sup>2"
  proof -
    have "(x\<^sup>2 * b + y\<^sup>2 * a)\<^sup>2 - 4 * (x\<^sup>2 * y\<^sup>2) * (a * b) = (x\<^sup>2 * b - y\<^sup>2 * a)\<^sup>2"
      by (simp add: power2_eq_square algebra_simps)
    moreover have "0 \<le> (x\<^sup>2 * b - y\<^sup>2 * a)\<^sup>2"
      by simp
    ultimately show ?thesis
      by linarith
  qed
  finally show "(2 * (x * y) * d)\<^sup>2 \<le> (x\<^sup>2 * b + y\<^sup>2 * a)\<^sup>2" .
  show "0 \<le> x\<^sup>2 * b + y\<^sup>2 * a"
    using a b by simp
qed

lemma dot_squared_le:
  "(dot u v)\<^sup>2 \<le> (\<Sum>x\<leftarrow>u. x * x) * (\<Sum>y\<leftarrow>v. y * y)"
proof (induction u arbitrary: v)
  case Nil
  show ?case by simp
next
  case (Cons x u)
  show ?case
  proof (cases v)
    case Nil
    then show ?thesis by simp
  next
    case (Cons y v')
    let ?a = "\<Sum>x\<leftarrow>u. x * x" and ?b = "\<Sum>y\<leftarrow>v'. y * y" and ?d = "dot u v'"
    have d: "?d\<^sup>2 \<le> ?a * ?b"
      by (rule Cons.IH)
    have cross: "2 * (x * y) * ?d \<le> x\<^sup>2 * ?b + y\<^sup>2 * ?a"
      using d sum_squares_nonneg sum_squares_nonneg by (rule cross_term)
    have "(x * y + ?d)\<^sup>2 = x\<^sup>2 * y\<^sup>2 + 2 * (x * y) * ?d + ?d\<^sup>2"
      by (simp add: power2_eq_square algebra_simps)
    also have "\<dots> \<le> x\<^sup>2 * y\<^sup>2 + (x\<^sup>2 * ?b + y\<^sup>2 * ?a) + ?a * ?b"
      using d cross by linarith
    also have "\<dots> = (x * x + ?a) * (y * y + ?b)"
      by (simp add: power2_eq_square algebra_simps)
    finally show ?thesis
      using Cons by simp
  qed
qed

lemma sum_squares_normalize_row:
  "(\<Sum>x\<leftarrow>normalize_row u. x * x) \<le> 1"
proof (cases "l2_norm u = 0")
  case True
  then show ?thesis
    by (simp add: normalize_row_def l2_norm_def)
next
  case False
  let ?s = "\<Sum>x\<leftarrow>u. x * x"
  from False have pos: "?s \<noteq> 0"
    by (simp add: l2_norm_def)
  have "(\<Sum>x\<leftarrow>map (\<lambda>x. x / a) u. x * x) = ?s / (a * a)" for a :: real
    by (induction u) (simp_all add: add_divide_distrib)
  from this [of "l2_norm u"] have "(\<Sum>x\<leftarrow>normalize_row u. x * x) = ?s / (l2_norm u * l2_norm u)"
    using False by (simp add: normalize_row_def)
  also have "l2_norm u * l2_norm u = ?s"
    using sum_squares_nonneg [of u] by (simp add: l2_norm_def)
  finally show ?thesis
    using pos by simp
qed

lemma cosine_range:
  "\<bar>dot (normalize_row u) (normalize_row v)\<bar> \<le> 1"
proof -
  let ?u = "normalize_row u" and ?v = "normalize_row v"
  have "(dot ?u ?v)\<^sup>2 \<le> (\<Sum>x\<leftarrow>?u. x * x) * (\<Sum>y\<leftarrow>?v. y * y)"
    by (rule dot_squared_le)
  also have "\<dots> \<le> 1 * 1"
    by (intro mult_mono sum_squares_normalize_row sum_squares_nonneg) simp
  finally have "(dot ?u ?v)\<^sup>2 \<le> 1"
    by simp
  then show ?thesis
    by (simp add: abs_square_le_1)
qed

lemma cosine_unit:
  assumes "l2_norm u = 1"
  shows "dot (normalize_row u) (normalize_row u) = 1"
proof -
  from assms have "normalize_row u = u"
    by (simp add: normalize_row_def)
  moreover from assms have "(\<Sum>x\<leftarrow>u. x * x) = 1"
    by (simp add: l2_norm_def)
  ultimately show ?thesis
    by (simp add: dot_self)
qed

lemma cosine_orthogonal:
  assumes "dot u v = 0"
  shows "dot (normalize_row u) (normalize_row v) = 0"
  using assms by (simp add: normalize_row_def dot_scale_left dot_scale_right)

section \<open>The claims\<close>

subsection \<open>C1: the Label Resolver\<close>

text \<open>
  C1, as stated: the noise sentinel \<open>-1\<close> maps to the reserved id "unclustered".
  Counterexample: line 46 of \<^verbatim>\<open>cluster_generator.py\<close> names the noise bucket
  \<^verbatim>\<open>"noise"\<close>, and \<^verbatim>\<open>process.py\<close> excludes that same name when it counts persons.
\<close>

theorem cluster_name_noise_counterexample:
  "cluster_name (- 1) = ''noise'' \<and> cluster_name (- 1) \<noteq> ''unclustered''"
  by (simp add: cluster_name_def)

text \<open>
  C1, amended: within a run of \<^verbatim>\<open>generate_clusters\<close> that returns, the record at
  every position \<open>j\<close> is a member of the bucket named by its label alone:
  \<^verbatim>\<open>"noise"\<close> for the label \<open>-1\<close> and \<^verbatim>\<open>"person_"\<close> followed by the decimal label for
  every other label.  So two positions with equal labels land in the same bucket,
  and the noise bucket has the same name however many other clusters exist.
\<close>

theorem resolved_bucket:
  assumes fit: "fit_predict lib self embeddings = (calls, Inr labels)"
    and gen: "generate_clusters lib self faces embeddings path_key = (calls', Inr result)"
    and j: "j < length faces"
    and p: "map_of (faces ! j) path_key = Some p"
  shows "\<exists>clusters members.
           map_of result ''clusters'' = Some (RClusters clusters) \<and>
           map_of clusters
             (if labels ! j = - 1 then ''noise'' else ''person_'' @ str_int (labels ! j)) =
             Some members \<and>
           p \<in> set members"
proof -
  from gen obtain labels' c e where
    fit': "fit_predict lib self embeddings = (calls', Inr labels')"
    and loop: "clusters_loop faces 0 labels' embeddings path_key [] [] = Inr (c, e)"
    and result: "result = [(''success'', RBool True), (''clusters'', RClusters c),
                           (''embeddings'', REmbeddings e)]"
    by (rule generate_clusters_result)
  from fit fit' have "labels' = labels" by simp
  with clusters_loop_bucket [OF loop j p]
  obtain ms where "map_of c (cluster_name (labels ! j)) = Some ms" "p \<in> set ms"
    by auto
  then show ?thesis
    by (auto simp: result cluster_name_def)
qed

text \<open>
  Three records with the labels \<open>0, -1, 0\<close>: the second one is in the noise bucket.
\<close>

theorem resolved_bucket_witness:
  "generate_clusters (\<lambda>clustering rows. Inr [0, - 1, 0]) cluster_generator
     [ [(''face_id'', PStr ''a'')], [(''face_id'', PStr ''b'')], [(''face_id'', PStr ''c'')] ]
     [ [1, 0], [0, 1], [1, 0] ] ''face_id'' =
     ([Engine [ [1, 0], [0, 1], [1, 0] ],
       Algorithm (DBSCAN 0.4 1 ''cosine'') [ [1, 0], [0, 1], [1, 0] ] ],
      Inr [(''success'', RBool True),
           (''clusters'', RClusters [(''person_0'', [PStr ''a'', PStr ''c'']),
                                     (''noise'', [PStr ''b''])]),
           (''embeddings'', REmbeddings [(PStr ''a'', [1, 0]), (PStr ''b'', [0, 1]),
                                         (PStr ''c'', [1, 0])])]) \<and>
   (\<exists>clusters members.
     map_of [(''success'', RBool True),
             (''clusters'', RClusters [(''person_0'', [PStr ''a'', PStr ''c'']),
                                       (''noise'', [PStr ''b''])]),
             (''embeddings'', REmbeddings [(PStr ''a'', [1, 0]), (PStr ''b'', [0, 1]),
                                           (PStr ''c'', [1, 0])])] ''clusters'' =
       Some (RClusters clusters) \<and>
     map_of clusters (if [0, - 1, 0 :: int] ! 1 = - 1 then ''noise''
                      else ''person_'' @ str_int ([0, - 1, 0] ! 1)) = Some members \<and>
     PStr ''b'' \<in> set members)"
proof -
  have fit: "fit_predict (\<lambda>clustering rows. Inr [0, - 1, 0]) cluster_generator
               [ [1, 0], [0, 1], [1, 0] ] =
             ([Engine [ [1, 0], [0, 1], [1, 0] ],
               Algorithm (DBSCAN 0.4 1 ''cosine'') [ [1, 0], [0, 1], [1, 0] ] ],
              Inr [0, - 1, 0])"
    by (simp add: fit_predict_def cluster_generator_def ClusterGenerator_init_def)
  have gen: "generate_clusters (\<lambda>clustering rows. Inr [0, - 1, 0]) cluster_generator
       [ [(''face_id'', PStr ''a'')], [(''face_id'', PStr ''b'')], [(''face_id'', PStr ''c'')] ]
       [ [1, 0], [0, 1], [1, 0] ] ''face_id'' =
       ([Engine [ [1, 0], [0, 1], [1, 0] ],
         Algorithm (DBSCAN 0.4 1 ''cosine'') [ [1, 0], [0, 1], [1, 0] ] ],
        Inr [(''success'', RBool True),
             (''clusters'', RClusters [(''person_0'', [PStr ''a'', PStr ''c'']),
                                       (''noise'', [PStr ''b''])]),
             (''embeddings'', REmbeddings [(PStr ''a'', [1, 0]), (PStr ''b'', [0, 1]),
                                           (PStr ''c'', [1, 0])])])"
    by (simp add: model_defs)
  have "\<exists>clusters members.
     map_of [(''success'', RBool True),
             (''clusters'', RClusters [(''person_0'', [PStr ''a'', PStr ''c'']),
                                       (''noise'', [PStr ''b''])]),
             (''embeddings'', REmbeddings [(PStr ''a'', [1, 0]), (PStr ''b'', [0, 1]),
                                           (PStr ''c'', [1, 0])])] ''clusters'' =
       Some (RClusters clusters) \<and>
     map_of clusters (if [0, - 1, 0 :: int] ! 1 = - 1 then ''noise''
                      else ''person_'' @ str_int ([0, - 1, 0] ! 1)) = Some members \<and>
     PStr ''b'' \<in> set members"
    by (rule resolved_bucket [OF fit gen]) simp_all
  with gen show ?thesis
    by (rule conjI)
qed

subsection \<open>C2: the member lists partition the record identifiers\<close>

text \<open>
  C2: for face records with pairwise-distinct (hashable) identifiers under
  \<open>path_key\<close>, as many labels as records and one embedding row per record,
  \<^verbatim>\<open>generate_clusters\<close> returns; the bucket names are distinct, the member lists
  taken together hold every identifier exactly once (none missing, none twice, none
  in two buckets), and the embeddings mapping has exactly one entry per identifier,
  in record order, holding that record's row.
\<close>

theorem generate_clusters_partition:
  assumes fit: "fit_predict lib self embeddings = (calls, Inr labels)"
    and len: "length labels = length faces" "length embeddings = length faces"
    and ids: "list_all2 (\<lambda>face p. map_of face path_key = Some p \<and> hashable p) faces ids"
    and dist: "distinct ids"
  shows "\<exists>clusters.
           generate_clusters lib self faces embeddings path_key =
             (calls, Inr [(''success'', RBool True), (''clusters'', RClusters clusters),
                          (''embeddings'', REmbeddings (zip ids embeddings))]) \<and>
           distinct (map fst clusters) \<and>
           distinct (concat (map snd clusters)) \<and>
           set (concat (map snd clusters)) = set ids"
proof -
  from clusters_loop_returns [OF ids, of 0 labels embeddings "[]" "[]"] len
  obtain c e where loop: "clusters_loop faces 0 labels embeddings path_key [] [] = Inr (c, e)"
    by auto
  have ids': "list_all2 (\<lambda>face p. map_of face path_key = Some p) faces ids"
    using ids by (rule list_all2_mono) simp
  have members: "mset (concat (map snd c)) = mset ids"
    using clusters_loop_members [OF ids' loop] by simp
  have e: "e = zip ids embeddings"
    using clusters_loop_embeddings [OF ids' loop dist] len by simp
  have keys: "distinct (map fst c)"
    using clusters_loop_keys [OF loop] by simp
  have "distinct (concat (map snd c))"
    using members dist by (metis mset_eq_imp_distinct_iff)
  moreover have "set (concat (map snd c)) = set ids"
    using members by (rule mset_eq_setD)
  moreover have "generate_clusters lib self faces embeddings path_key =
      (calls, Inr [(''success'', RBool True), (''clusters'', RClusters c),
                   (''embeddings'', REmbeddings (zip ids embeddings))])"
    by (simp add: generate_clusters_def fit loop e)
  ultimately show ?thesis
    using keys by blast
qed

text \<open>
  Three records with distinct identifiers and the labels \<open>0, -1, 0\<close>.
\<close>

theorem generate_clusters_partition_witness:
  "\<exists>clusters.
     generate_clusters (\<lambda>clustering rows. Inr [0, - 1, 0]) cluster_generator
       [ [(''face_id'', PStr ''a'')], [(''face_id'', PStr ''b'')], [(''face_id'', PStr ''c'')] ]
       [ [1, 0], [0, 1], [1, 0] ] ''face_id'' =
       ([Engine [ [1, 0], [0, 1], [1, 0] ],
         Algorithm (DBSCAN 0.4 1 ''cosine'') [ [1, 0], [0, 1], [1, 0] ] ],
        Inr [(''success'', RBool True), (''clusters'', RClusters clusters),
             (''embeddings'',
              REmbeddings (zip [PStr ''a'', PStr ''b'', PStr ''c''] [ [1, 0], [0, 1], [1, 0] ]))]) \<and>
     distinct (map fst clusters) \<and>
     distinct (concat (map snd clusters)) \<and>
     set (concat (map snd clusters)) = set [PStr ''a'', PStr ''b'', PStr ''c'']"
proof -
  have fit: "fit_predict (\<lambda>clustering rows. Inr [0, - 1, 0]) cluster_generator
               [ [1, 0], [0, 1], [1, 0] ] =
             ([Engine [ [1, 0], [0, 1], [1, 0] ],
               Algorithm (DBSCAN 0.4 1 ''cosine'') [ [1, 0], [0, 1], [1, 0] ] ],
              Inr [0, - 1, 0])"
    by (simp add: fit_predict_def cluster_generator_def ClusterGenerator_init_def)
  have ids: "list_all2 (\<lambda>face p. map_of face ''face_id'' = Some p \<and> hashable p)
      [ [(''face_id'', PStr ''a'')], [(''face_id'', PStr ''b'')], [(''face_id'', PStr ''c'')] ]
      [PStr ''a'', PStr ''b'', PStr ''c'']"
    by simp
  show ?thesis
    by (rule generate_clusters_partition [OF fit _ _ ids]) simp_all
qed

subsection \<open>C3: no face in the whole batch\<close>




subsection \<open>C4: embeddings of inconsistent length\<close>

text \<open>
  C4, as stated: on vectors of inconsistent length the Cluster Engine fails before
  invoking the clustering algorithm.  Counterexample: \<^verbatim>\<open>fit_predict\<close> has no check of
  its own; on two rows of lengths 1 and 2 it invokes the estimator, and the failure
  is the library's.
\<close>

theorem fit_predict_ragged_counterexample:
  "fit_predict example_lib cluster_generator [ [1], [1, 2] ] =
     ([Engine [ [1], [1, 2] ], Algorithm (DBSCAN 0.4 1 ''cosine'') [ [1], [1, 2] ] ],
      Inl (LibraryError ''rows of unequal length''))"
  by (simp add: model_defs example_defs)

text \<open>
  C4, amended: for the algorithm names \<^verbatim>\<open>dbscan\<close> and \<^verbatim>\<open>hdbscan\<close>, \<^verbatim>\<open>fit_predict\<close>
  invokes the estimator built from its stored fields on the embedding sequence
  exactly as given (nothing is truncated or padded, whatever the row lengths), and
  its outcome is the estimator's outcome.
\<close>

theorem fit_predict_passes_embeddings:
  assumes "ClusterGenerator.algorithm self = ''dbscan'' \<or>
           ClusterGenerator.algorithm self = ''hdbscan''"
  shows "\<exists>clustering.
           fit_predict lib self embeddings =
             ([Engine embeddings, Algorithm clustering embeddings],
              lib clustering embeddings) \<and>
           clustering =
             (if ClusterGenerator.algorithm self = ''dbscan''
              then DBSCAN (ClusterGenerator.eps self) (ClusterGenerator.min_samples self)
                     (ClusterGenerator.metric self)
              else HDBSCAN (ClusterGenerator.min_samples self) (ClusterGenerator.metric self))"
  using assms by (auto simp: fit_predict_def Let_def)

text \<open>
  The generator of the service on three rows of equal length.
\<close>

theorem fit_predict_passes_embeddings_witness:
  "ClusterGenerator.algorithm cluster_generator = ''dbscan'' \<and>
   fit_predict example_lib cluster_generator [ [1, 0], [0, 1], [1, 0] ] =
     ([Engine [ [1, 0], [0, 1], [1, 0] ],
       Algorithm (DBSCAN 0.4 1 ''cosine'') [ [1, 0], [0, 1], [1, 0] ] ],
      Inr [0, - 1, 0])"
proof -
  have h: "ClusterGenerator.algorithm cluster_generator = ''dbscan'' \<or>
           ClusterGenerator.algorithm cluster_generator = ''hdbscan''"
    by (simp add: cluster_generator_def ClusterGenerator_init_def)
  from fit_predict_passes_embeddings [OF h, of example_lib "[ [1, 0], [0, 1], [1, 0] ]"]
  show ?thesis
    by (simp add: cluster_generator_def ClusterGenerator_init_def example_lib_def)
qed

subsection \<open>C5: unsupported configuration\<close>

text \<open>
  C5, as stated: an unsupported algorithm is surfaced as a structured failure and
  never as a crash.  Counterexample: the constructor accepts the algorithm name
  \<^verbatim>\<open>kmeans\<close>, and the command line then ends with the \<^verbatim>\<open>ValueError\<close> of
  \<^verbatim>\<open>fit_predict\<close> uncaught.
\<close>

theorem main_unsupported_algorithm_counterexample:
  "ClusterGenerator_init ''kmeans'' 0.4 2 ''cosine'' =
     \<lparr> ClusterGenerator.algorithm = ''kmeans'', eps = 0.4, min_samples = 2,
       metric = ''cosine'' \<rparr> \<and>
   main example_world example_lib example_args = Uncaught (ValueError ''kmeans'')"
  by (simp add: model_defs example_defs)

text \<open>
  C5, amended: an algorithm name other than \<^verbatim>\<open>dbscan\<close> and \<^verbatim>\<open>hdbscan\<close> makes
  \<^verbatim>\<open>fit_predict\<close> raise \<^verbatim>\<open>ValueError\<close> naming the algorithm, without invoking any
  estimator and whatever the metric (which the engine never checks).  The command
  line does not catch it: a run that found faces ends with it uncaught (or with the
  \<^verbatim>\<open>ValueError\<close> of \<^verbatim>\<open>np.array\<close>, when the embeddings do not form a matrix).  The
  service turns every error raised by clustering, and every other exception of a
  request with files, into the structured failure \<^verbatim>\<open>{success: false, error}\<close> with
  status 500.
\<close>

theorem unsupported_algorithm:
  "(ClusterGenerator.algorithm self \<noteq> ''dbscan'' \<and>
    ClusterGenerator.algorithm self \<noteq> ''hdbscan'' \<longrightarrow>
      fit_predict lib self embeddings =
        ([Engine embeddings], Inl (ValueError (ClusterGenerator.algorithm self)))) \<and>
   (args.algorithm a \<noteq> ''dbscan'' \<and> args.algorithm a \<noteq> ''hdbscan'' \<and>
    prepare wld (device a) = None \<and>
    extract_faces_from_folder wld (image_folder a) (min_size a) (det_thresh a) = Inr faces \<and>
    faces \<noteq> [] \<longrightarrow>
      main wld lib a =
        Uncaught (case np_array (map face_data.embedding faces) of
                    Inl e \<Rightarrow> e
                  | Inr embeddings' \<Rightarrow> ValueError (args.algorithm a))) \<and>
   (parse_form wld form = Inr (task_id, min_size', det_thresh') \<and> files \<noteq> [] \<and>
    makedirs wld (os_path_join UPLOAD_FOLDER task_id) = None \<and>
    save_files wld (os_path_join UPLOAD_FOLDER task_id) files [] = Inr saved_paths \<and>
    images_loop wld task_id (os_path_join UPLOAD_FOLDER task_id) min_size' det_thresh'
      saved_paths [] = Inr all_faces \<and>
    all_faces \<noteq> [] \<and>
    np_array (map face_info.embedding all_faces) = Inr embeddings_array \<and>
    snd (generate_clusters lib cluster_generator (map face_info_dict all_faces)
           embeddings_array ''face_id'') = Inl e \<longrightarrow>
      snd (process_images wld lib files form) =
        (500, [(''success'', RBool False), (''error'', RMsg (Exception_text e))])) \<and>
   (parse_form wld form = Inr (task_id, min_size', det_thresh') \<and> files \<noteq> [] \<and>
    run_batch wld lib files task_id min_size' det_thresh' = (calls, Inl e') \<longrightarrow>
      process_images wld lib files form =
        (calls, (500, [(''success'', RBool False), (''error'', RMsg (Exception_text e'))])))"
proof (intro conjI impI)
  assume "ClusterGenerator.algorithm self \<noteq> ''dbscan'' \<and>
          ClusterGenerator.algorithm self \<noteq> ''hdbscan''"
  then show "fit_predict lib self embeddings =
      ([Engine embeddings], Inl (ValueError (ClusterGenerator.algorithm self)))"
    by (simp add: fit_predict_def)
next
  assume "args.algorithm a \<noteq> ''dbscan'' \<and> args.algorithm a \<noteq> ''hdbscan'' \<and>
    prepare wld (device a) = None \<and>
    extract_faces_from_folder wld (image_folder a) (min_size a) (det_thresh a) = Inr faces \<and>
    faces \<noteq> []"
  then show "main wld lib a =
        Uncaught (case np_array (map face_data.embedding faces) of
                    Inl e \<Rightarrow> e
                  | Inr embeddings' \<Rightarrow> ValueError (args.algorithm a))"
    by (simp add: main_def generate_clusters_def fit_predict_def ClusterGenerator_init_def
        split: sum.split)
next
  assume "parse_form wld form = Inr (task_id, min_size', det_thresh') \<and> files \<noteq> [] \<and>
    makedirs wld (os_path_join UPLOAD_FOLDER task_id) = None \<and>
    save_files wld (os_path_join UPLOAD_FOLDER task_id) files [] = Inr saved_paths \<and>
    images_loop wld task_id (os_path_join UPLOAD_FOLDER task_id) min_size' det_thresh'
      saved_paths [] = Inr all_faces \<and>
    all_faces \<noteq> [] \<and>
    np_array (map face_info.embedding all_faces) = Inr embeddings_array \<and>
    snd (generate_clusters lib cluster_generator (map face_info_dict all_faces)
           embeddings_array ''face_id'') = Inl e"
  then show "snd (process_images wld lib files form) =
        (500, [(''success'', RBool False), (''error'', RMsg (Exception_text e))])"
    by (auto simp: process_images_def run_batch_def failure_def Let_def
        split: prod.splits sum.splits)
next
  assume "parse_form wld form = Inr (task_id, min_size', det_thresh') \<and> files \<noteq> [] \<and>
    run_batch wld lib files task_id min_size' det_thresh' = (calls, Inl e')"
  then show "process_images wld lib files form =
        (calls, (500, [(''success'', RBool False), (''error'', RMsg (Exception_text e'))]))"
    by (simp add: process_images_def failure_def)
qed

text \<open>
  The algorithm \<^verbatim>\<open>kmeans\<close>, a library that rejects its input, and an image on which
  the face-analysis model raises.
\<close>

theorem unsupported_algorithm_witness:
  "fit_predict (\<lambda>clustering rows. Inl (LibraryError ''metric''))
     (ClusterGenerator_init ''kmeans'' 0.4 2 ''cosine'') [ [1, 0] ] =
     ([Engine [ [1, 0] ] ], Inl (ValueError ''kmeans'')) \<and>
   main example_world (\<lambda>clustering rows. Inl (LibraryError ''metric'')) example_args =
     Uncaught (ValueError ''kmeans'') \<and>
   snd (process_images example_world (\<lambda>clustering rows. Inl (LibraryError ''metric''))
          [''b.png''] example_form) =
     (500, [(''success'', RBool False),
            (''error'', RMsg (Exception_text (LibraryError ''metric'')))]) \<and>
   process_images example_world (\<lambda>clustering rows. Inl (LibraryError ''metric''))
     [''d.jpg''] example_form =
     ([], (500, [(''success'', RBool False),
                 (''error'', RMsg (Exception_text (LibraryError ''detector'')))]))"
proof -
  let ?lib = "\<lambda>(clustering :: estimator) (rows :: real list list).
                (Inl (LibraryError ''metric'') :: error + int list)"
  let ?self = "ClusterGenerator_init ''kmeans'' 0.4 2 ''cosine''"
  let ?tf = "os_path_join UPLOAD_FOLDER ''t1''"
  obtain faces where faces: "extract_faces_from_folder example_world
      (image_folder example_args) (min_size example_args) (det_thresh example_args) = Inr faces"
    and nonempty: "faces \<noteq> []"
    and rows: "np_array (map face_data.embedding faces) = Inr [ [1, 0], [0, 1] ]"
    by (simp add: model_defs example_defs)
  obtain all_faces where all_faces:
    "images_loop example_world ''t1'' ?tf 30 0.5 [''../uploads/t1/b.png''] [] = Inr all_faces"
    and all_nonempty: "all_faces \<noteq> []"
    and all_rows: "np_array (map face_info.embedding all_faces) = Inr [ [0, 1] ]"
    and gen: "snd (generate_clusters ?lib cluster_generator (map face_info_dict all_faces)
                     [ [0, 1] ] ''face_id'') = Inl (LibraryError ''metric'')"
    by (simp add: model_defs example_defs)
  have h1: "ClusterGenerator.algorithm ?self \<noteq> ''dbscan'' \<and>
            ClusterGenerator.algorithm ?self \<noteq> ''hdbscan''"
    by (simp add: ClusterGenerator_init_def)
  have h2: "args.algorithm example_args \<noteq> ''dbscan'' \<and>
            args.algorithm example_args \<noteq> ''hdbscan'' \<and>
            prepare example_world (device example_args) = None \<and>
            extract_faces_from_folder example_world (image_folder example_args)
              (min_size example_args) (det_thresh example_args) = Inr faces \<and>
            faces \<noteq> []"
    using faces nonempty by (simp add: example_defs)
  have h3: "parse_form example_world example_form = Inr (''t1'', 30, 0.5) \<and>
      [''b.png''] \<noteq> [] \<and> makedirs example_world ?tf = None \<and>
      save_files example_world ?tf [''b.png''] [] = Inr [''../uploads/t1/b.png''] \<and>
      images_loop example_world ''t1'' ?tf 30 0.5 [''../uploads/t1/b.png''] [] =
        Inr all_faces \<and>
      all_faces \<noteq> [] \<and>
      np_array (map face_info.embedding all_faces) = Inr [ [0, 1] ] \<and>
      snd (generate_clusters ?lib cluster_generator (map face_info_dict all_faces)
             [ [0, 1] ] ''face_id'') = Inl (LibraryError ''metric'')"
    using all_faces all_nonempty all_rows gen by (simp add: model_defs example_defs)
  have h4: "parse_form example_world example_form = Inr (''t1'', 30, 0.5) \<and>
      [''d.jpg''] \<noteq> [] \<and>
      run_batch example_world ?lib [''d.jpg''] ''t1'' 30 0.5 =
        ([], Inl (LibraryError ''detector''))"
    by (simp add: model_defs example_defs)
  note T = unsupported_algorithm [of ?self ?lib "[ [1, 0] ]" example_args example_world faces
      example_form "''t1''" 30 "0.5" "[''b.png'']" "[''../uploads/t1/b.png'']" all_faces
      "[ [0, 1] ]" "LibraryError ''metric''"]
  note U = unsupported_algorithm [of ?self ?lib "[ [1, 0] ]" example_args example_world faces
      example_form "''t1''" 30 "0.5" "[''d.jpg'']" "[]" "[]" "[]" "LibraryError ''metric''" "[]"
      "LibraryError ''detector''"]
  from T h1 have c1: "fit_predict ?lib ?self [ [1, 0] ] =
      ([Engine [ [1, 0] ] ], Inl (ValueError (ClusterGenerator.algorithm ?self)))"
    by blast
  from T h2 have "main example_world ?lib example_args =
      Uncaught (case np_array (map face_data.embedding faces) of
                  Inl e \<Rightarrow> e
                | Inr embeddings' \<Rightarrow> ValueError (args.algorithm example_args))"
    by blast
  then have c2: "main example_world ?lib example_args = Uncaught (ValueError ''kmeans'')"
    by (simp add: rows example_args_def)
  from T h3 have c3: "snd (process_images example_world ?lib [''b.png''] example_form) =
      (500, [(''success'', RBool False),
             (''error'', RMsg (Exception_text (LibraryError ''metric'')))])"
    by blast
  from U h4 have c4: "process_images example_world ?lib [''d.jpg''] example_form =
     ([], (500, [(''success'', RBool False),
                 (''error'', RMsg (Exception_text (LibraryError ''detector'')))]))"
    by blast
  from c1 c2 c3 c4 show ?thesis
    by (simp add: ClusterGenerator_init_def)
qed

subsection \<open>C6: the summary counts\<close>

text \<open>
  C6: in every response with \<^verbatim>\<open>success = true\<close>, the form was converted, the uploads
  were saved and the loop over the images ended with a list of face records;
  \<^verbatim>\<open>total_faces\<close> is the number of these records and \<^verbatim>\<open>unique_persons\<close> is the number
  of distinct keys of the \<^verbatim>\<open>clusters\<close> mapping other than the reserved noise id.
\<close>

theorem response_counts:
  assumes run: "process_images wld lib files form = (calls, (status, body))"
    and ok: "map_of body ''success'' = Some (RBool True)"
  shows "\<exists>task_id min_size' det_thresh' saved_paths all_faces clusters.
           parse_form wld form = Inr (task_id, min_size', det_thresh') \<and>
           save_files wld (os_path_join UPLOAD_FOLDER task_id) files [] = Inr saved_paths \<and>
           images_loop wld task_id (os_path_join UPLOAD_FOLDER task_id) min_size' det_thresh'
             saved_paths [] = Inr all_faces \<and>
           map_of body ''clusters'' = Some (RClusters clusters) \<and>
           map_of body ''total_faces'' = Some (RInt (int (length all_faces))) \<and>
           map_of body ''unique_persons'' =
             Some (RInt (int (card (set (map fst clusters) - {''noise''}))))"
proof -
  from run ok obtain task_id ms dt where
    parsed: "parse_form wld form = Inr (task_id, ms, dt)"
    by (cases "parse_form wld form") (auto simp: process_images_def failure_def)
  from run ok parsed have files: "files \<noteq> []"
    by (auto simp: process_images_def)
  let ?tf = "os_path_join UPLOAD_FOLDER task_id"
  from run ok parsed files obtain response where
    batch: "run_batch wld lib files task_id ms dt = (calls, Inr response)"
    and response: "response = (status, body)"
    by (auto simp: process_images_def failure_def split: prod.splits sum.splits)
  from batch obtain saved_paths all_faces where
    saved: "save_files wld ?tf files [] = Inr saved_paths"
    and ingested: "images_loop wld task_id ?tf ms dt saved_paths [] = Inr all_faces"
    and rest: "(if length all_faces = 0 then
                  ([], Inr (200, [(''success'', RBool False),
                                  (''error'', RMsg Faces_not_detected),
                                  (''total_faces'', RInt 0)]))
                else
                  (case np_array (map face_info.embedding all_faces) of
                     Inl e \<Rightarrow> ([], Inl e)
                   | Inr embeddings_array \<Rightarrow>
                       (case generate_clusters lib cluster_generator
                               (map face_info_dict all_faces) embeddings_array ''face_id'' of
                          (calls, Inl e) \<Rightarrow> (calls, Inl e)
                        | (calls, Inr result) \<Rightarrow>
                            (calls,
                             case respond task_id all_faces result of
                               Inl e \<Rightarrow> Inl e
                             | Inr body \<Rightarrow> Inr (200, body))))) =
               (calls, Inr response)"
    unfolding run_batch_def Let_def
    by (auto split: option.splits sum.splits)
  from rest response ok obtain E result where
    faces: "all_faces \<noteq> []"
    and gen: "generate_clusters lib cluster_generator (map face_info_dict all_faces) E
                ''face_id'' = (calls, Inr result)"
    and resp: "respond task_id all_faces result = Inr body"
    by (auto split: if_splits sum.splits prod.splits)
  from gen obtain labels c e where
    loop: "clusters_loop (map face_info_dict all_faces) 0 labels E ''face_id'' [] [] =
             Inr (c, e)"
    and result: "result = [(''success'', RBool True), (''clusters'', RClusters c),
                           (''embeddings'', REmbeddings e)]"
    by (rule generate_clusters_result)
  from resp have body: "body = [(''success'', RBool True), (''task_id'', RStr task_id),
        (''clusters'', RClusters c), (''embeddings'', REmbeddings e),
        (''faces_metadata'', RMeta (metadata_loop all_faces [])),
        (''total_faces'', RInt (int (length all_faces))),
        (''unique_persons'',
         RInt (int (length (filter (\<lambda>k. k \<noteq> ''noise'') (map fst c)))))]"
    by (auto simp: Let_def result respond_def getitem_def)
  have "distinct (map fst c)"
    using clusters_loop_keys [OF loop] by simp
  then have "length (filter (\<lambda>k. k \<noteq> ''noise'') (map fst c)) =
             card (set (map fst c) - {''noise''})"
    by (rule count_without)
  with body parsed saved ingested show ?thesis
    by simp
qed

text \<open>
  An upload of four entries, two of which yield faces.
\<close>

theorem response_counts_witness:
  "map_of (snd (snd (process_images example_world example_lib
                       [''a.jpg'', '''', ''c.jpg'', ''b.png''] example_form)))
     ''success'' = Some (RBool True) \<and>
   map_of (snd (snd (process_images example_world example_lib
                       [''a.jpg'', '''', ''c.jpg'', ''b.png''] example_form)))
     ''total_faces'' = Some (RInt 3) \<and>
   (\<exists>task_id min_size' det_thresh' saved_paths all_faces clusters.
     parse_form example_world example_form = Inr (task_id, min_size', det_thresh') \<and>
     save_files example_world (os_path_join UPLOAD_FOLDER task_id)
       [''a.jpg'', '''', ''c.jpg'', ''b.png''] [] = Inr saved_paths \<and>
     images_loop example_world task_id (os_path_join UPLOAD_FOLDER task_id) min_size'
       det_thresh' saved_paths [] = Inr all_faces \<and>
     map_of (snd (snd (process_images example_world example_lib
                         [''a.jpg'', '''', ''c.jpg'', ''b.png''] example_form)))
       ''clusters'' = Some (RClusters clusters) \<and>
     map_of (snd (snd (process_images example_world example_lib
                         [''a.jpg'', '''', ''c.jpg'', ''b.png''] example_form)))
       ''total_faces'' = Some (RInt (int (length all_faces))) \<and>
     map_of (snd (snd (process_images example_world example_lib
                         [''a.jpg'', '''', ''c.jpg'', ''b.png''] example_form)))
       ''unique_persons'' =
       Some (RInt (int (card (set (map fst clusters) - {''noise''})))))"
proof -
  have ok: "map_of (snd (snd (process_images example_world example_lib
                         [''a.jpg'', '''', ''c.jpg'', ''b.png''] example_form)))
              ''success'' = Some (RBool True)"
    by (simp add: model_defs example_defs)
  have total: "map_of (snd (snd (process_images example_world example_lib
                       [''a.jpg'', '''', ''c.jpg'', ''b.png''] example_form)))
     ''total_faces'' = Some (RInt 3)"
    by (simp add: model_defs example_defs)
  have run: "process_images example_world example_lib
               [''a.jpg'', [], ''c.jpg'', ''b.png''] example_form =
             (fst (process_images example_world example_lib
                     [''a.jpg'', [], ''c.jpg'', ''b.png''] example_form),
              fst (snd (process_images example_world example_lib
                          [''a.jpg'', [], ''c.jpg'', ''b.png''] example_form)),
              snd (snd (process_images example_world example_lib
                          [''a.jpg'', [], ''c.jpg'', ''b.png''] example_form)))"
    by simp
  from ok total response_counts [OF run ok] show ?thesis
    by blast
qed

subsection \<open>C7: the comparison of two embeddings\<close>

text \<open>
  C7: given two embedding vectors (two fields holding vectors of the same, non-zero
  length), \<^verbatim>\<open>compare_faces\<close> answers with status 200, a similarity in \<open>[-1, 1]\<close> and a
  \<^verbatim>\<open>match\<close> that is true exactly when the similarity is greater than 0.6; two
  identical unit vectors give similarity 1 and a match, two orthogonal vectors give
  similarity 0 and no match.
\<close>

theorem compare_faces_similarity:
  assumes emb1: "map_of data ''embedding1'' = Some u"
    and emb2: "map_of data ''embedding2'' = Some v"
    and len: "u \<noteq> []" "length u = length v"
  shows "\<exists>similarity.
           compare_faces data =
             (200, [(''similarity'', RFloat similarity),
                    (''match'', RBool (similarity > 0.6))]) \<and>
           cosine_similarity u v = Inr similarity \<and>
           - 1 \<le> similarity \<and> similarity \<le> 1 \<and>
           (u = v \<and> l2_norm u = 1 \<longrightarrow>
              compare_faces data =
                (200, [(''similarity'', RFloat 1), (''match'', RBool True)])) \<and>
           (dot u v = 0 \<longrightarrow>
              compare_faces data =
                (200, [(''similarity'', RFloat 0), (''match'', RBool False)]))"
proof -
  let ?s = "dot (normalize_row u) (normalize_row v)"
  from len have v: "v \<noteq> []"
    by auto
  with len have cos: "cosine_similarity u v = Inr ?s"
    by (simp add: cosine_similarity_def)
  then have response: "compare_faces data =
      (200, [(''similarity'', RFloat ?s), (''match'', RBool (?s > 0.6))])"
    by (simp add: compare_faces_def emb1 emb2)
  have range: "- 1 \<le> ?s \<and> ?s \<le> 1"
    using cosine_range [of u v] by (simp add: abs_le_iff)
  have unit: "?s = 1" if "u = v \<and> l2_norm u = 1"
    using that cosine_unit [of u] by auto
  have orthogonal: "?s = 0" if "dot u v = 0"
    using that by (rule cosine_orthogonal)
  from response cos range unit orthogonal show ?thesis
    by (intro exI [of _ ?s]) auto
qed

text \<open>
  The unit vector \<open>(1, 0)\<close> against itself and against \<open>(0, 1)\<close>.
\<close>

theorem compare_faces_similarity_witness:
  "compare_faces [(''embedding1'', [1, 0]), (''embedding2'', [1, 0])] =
     (200, [(''similarity'', RFloat 1), (''match'', RBool True)]) \<and>
   compare_faces [(''embedding1'', [1, 0]), (''embedding2'', [0, 1])] =
     (200, [(''similarity'', RFloat 0), (''match'', RBool False)])"
proof -
  have a: "map_of [(''embedding1'', [1, 0 :: real]), (''embedding2'', [1, 0])] ''embedding1'' =
             Some [1, 0]"
    "map_of [(''embedding1'', [1, 0 :: real]), (''embedding2'', [1, 0])] ''embedding2'' =
             Some [1, 0]"
    by simp_all
  have b: "map_of [(''embedding1'', [1, 0 :: real]), (''embedding2'', [0, 1])] ''embedding1'' =
             Some [1, 0]"
    "map_of [(''embedding1'', [1, 0 :: real]), (''embedding2'', [0, 1])] ''embedding2'' =
             Some [0, 1]"
    by simp_all
  have unit: "[1, 0 :: real] = [1, 0] \<and> l2_norm [1, 0] = 1"
    by (simp add: l2_norm_def)
  have orthogonal: "dot [1, 0] [0, 1] = 0"
    by simp
  from compare_faces_similarity [OF a] unit
  have c1: "compare_faces [(''embedding1'', [1, 0]), (''embedding2'', [1, 0])] =
     (200, [(''similarity'', RFloat 1), (''match'', RBool True)])"
    by auto
  from compare_faces_similarity [OF b] orthogonal
  have c2: "compare_faces [(''embedding1'', [1, 0]), (''embedding2'', [0, 1])] =
     (200, [(''similarity'', RFloat 0), (''match'', RBool False)])"
    by auto
  from c1 c2 show ?thesis
    by (rule conjI)
qed

subsection \<open>C8: records and labels of different lengths\<close>

text \<open>
  C8, as stated: the Result Assembler fails whenever the records and the labels
  differ in length.  Counterexample: with one record and two labels
  \<^verbatim>\<open>generate_clusters\<close> returns a result.
\<close>

theorem generate_clusters_length_counterexample:
  "length [0, 1 :: int] \<noteq> length [ [(''face_id'', PStr ''a'')] ] \<and>
   generate_clusters (\<lambda>clustering rows. Inr [0, 1]) cluster_generator
     [ [(''face_id'', PStr ''a'')] ] [ [1, 0], [0, 1] ] ''face_id'' =
     ([Engine [ [1, 0], [0, 1] ], Algorithm (DBSCAN 0.4 1 ''cosine'') [ [1, 0], [0, 1] ] ],
      Inr [(''success'', RBool True),
           (''clusters'', RClusters [(''person_0'', [PStr ''a''])]),
           (''embeddings'', REmbeddings [(PStr ''a'', [1, 0])])])"
  by (simp add: model_defs)

text \<open>
  C8, amended: \<^verbatim>\<open>generate_clusters\<close> does not compare the lengths.  With fewer labels
  than records it returns no result: it raises, and the exception is \<^verbatim>\<open>IndexError\<close>
  when every record has a hashable identifier and there are at least as many
  embedding rows as labels.  Labels beyond the number of records are ignored: the
  outcome is the one for the first \<open>length faces\<close> labels.
\<close>

theorem labels_length_unchecked:
  assumes fit: "fit_predict lib self embeddings = (calls, Inr labels)"
  shows "(length labels < length faces \<longrightarrow>
            (\<exists>err. generate_clusters lib self faces embeddings path_key = (calls, Inl err))) \<and>
         (length labels < length faces \<and> length labels \<le> length embeddings \<and>
          list_all2 (\<lambda>face p. map_of face path_key = Some p \<and> hashable p) faces ids \<longrightarrow>
            generate_clusters lib self faces embeddings path_key = (calls, Inl IndexError)) \<and>
         (fit_predict lib' self embeddings = (calls, Inr (take (length faces) labels)) \<longrightarrow>
            generate_clusters lib' self faces embeddings path_key =
            generate_clusters lib self faces embeddings path_key)"
proof (intro conjI impI)
  assume "length labels < length faces"
  then obtain err where "clusters_loop faces 0 labels embeddings path_key [] [] = Inl err"
    using clusters_loop_short [of 0 labels faces embeddings path_key "[]" "[]"] by auto
  then show "\<exists>err. generate_clusters lib self faces embeddings path_key = (calls, Inl err)"
    by (simp add: generate_clusters_def fit)
next
  assume "length labels < length faces \<and> length labels \<le> length embeddings \<and>
    list_all2 (\<lambda>face p. map_of face path_key = Some p \<and> hashable p) faces ids"
  then have "clusters_loop faces 0 labels embeddings path_key [] [] = Inl IndexError"
    by (intro clusters_loop_IndexError [where ids = ids]) simp_all
  then show "generate_clusters lib self faces embeddings path_key = (calls, Inl IndexError)"
    by (simp add: generate_clusters_def fit)
next
  assume "fit_predict lib' self embeddings = (calls, Inr (take (length faces) labels))"
  then show "generate_clusters lib' self faces embeddings path_key =
             generate_clusters lib self faces embeddings path_key"
    using clusters_loop_take [of faces 0 labels embeddings path_key "[]" "[]"]
    by (simp add: generate_clusters_def fit)
qed

text \<open>
  Two records and one label.
\<close>

theorem labels_length_unchecked_witness:
  "generate_clusters (\<lambda>clustering rows. Inr [0]) cluster_generator
     [ [(''face_id'', PStr ''a'')], [(''face_id'', PStr ''b'')] ] [ [1, 0], [0, 1] ] ''face_id'' =
     ([Engine [ [1, 0], [0, 1] ], Algorithm (DBSCAN 0.4 1 ''cosine'') [ [1, 0], [0, 1] ] ],
      Inl IndexError)"
proof -
  let ?lib = "\<lambda>(clustering :: estimator) (rows :: real list list).
                (Inr [0] :: error + int list)"
  let ?faces = "[ [(''face_id'', PStr ''a'')], [(''face_id'', PStr ''b'')] ]"
  have fit: "fit_predict ?lib cluster_generator [ [1, 0], [0, 1] ] =
      ([Engine [ [1, 0], [0, 1] ], Algorithm (DBSCAN 0.4 1 ''cosine'') [ [1, 0], [0, 1] ] ],
       Inr [0])"
    by (simp add: model_defs)
  have h: "length [0 :: int] < length ?faces \<and>
           length [0 :: int] \<le> length [ [1, 0], [0, 1 :: real] ] \<and>
           list_all2 (\<lambda>face p. map_of face ''face_id'' = Some p \<and> hashable p) ?faces
             [PStr ''a'', PStr ''b'']"
    by simp
  from labels_length_unchecked [OF fit, of ?faces "''face_id''" "[PStr ''a'', PStr ''b'']"] h
  show ?thesis
    by blast
qed

subsection \<open>C9: the failure of the detector on one image\<close>




subsection \<open>C10: the keys of the result and the lookup of the command line\<close>

text \<open>
  C10: whenever \<^verbatim>\<open>generate_clusters\<close> returns, its result has exactly the keys
  \<^verbatim>\<open>success\<close>, \<^verbatim>\<open>clusters\<close> and \<^verbatim>\<open>embeddings\<close>, with \<^verbatim>\<open>success\<close> true, so that looking
  up \<^verbatim>\<open>celebrity_matches\<close> raises \<^verbatim>\<open>KeyError\<close>; hence every run of the command line
  with a non-empty face list ends with an uncaught exception: the one of
  \<^verbatim>\<open>np.array\<close> or of the clustering, or this \<^verbatim>\<open>KeyError\<close>.
\<close>

theorem generate_clusters_keys:
  "(generate_clusters lib self faces embeddings path_key = (calls, Inr result) \<longrightarrow>
      map fst result = [''success'', ''clusters'', ''embeddings''] \<and>
      map_of result ''success'' = Some (RBool True) \<and>
      getitem result ''celebrity_matches'' = Inl (KeyError ''celebrity_matches'')) \<and>
   main wld lib a =
     (case prepare wld (device a) of
        Some e \<Rightarrow> Uncaught e
      | None \<Rightarrow>
          (case extract_faces_from_folder wld (image_folder a) (min_size a) (det_thresh a) of
             Inl e \<Rightarrow> Uncaught e
           | Inr faces' \<Rightarrow>
               if faces' = [] then Exited
               else
                 (case np_array (map face_data.embedding faces') of
                    Inl e \<Rightarrow> Uncaught e
                  | Inr embeddings' \<Rightarrow>
                      (case snd (generate_clusters lib
                                   (ClusterGenerator_init (args.algorithm a) (args.eps a)
                                      (args.min_samples a) (args.metric a))
                                   (map face_data_dict faces') embeddings'
                                   ''original_image_path'') of
                         Inl e \<Rightarrow> Uncaught e
                       | Inr result' \<Rightarrow> Uncaught (KeyError ''celebrity_matches'')))))"
proof (intro conjI impI)
  assume gen: "generate_clusters lib self faces embeddings path_key = (calls, Inr result)"
  then obtain labels c e where
    result: "result = [(''success'', RBool True), (''clusters'', RClusters c),
                       (''embeddings'', REmbeddings e)]"
    by (rule generate_clusters_result)
  then show "map fst result = [''success'', ''clusters'', ''embeddings'']"
    and "map_of result ''success'' = Some (RBool True)"
    and "getitem result ''celebrity_matches'' = Inl (KeyError ''celebrity_matches'')"
    by (simp_all add: getitem_def)
next
  have missing: "getitem result' ''celebrity_matches'' = Inl (KeyError ''celebrity_matches'')"
    if "snd (generate_clusters lib' self' faces' embeddings' pk) = Inr result'"
    for lib' self' faces' embeddings' pk result'
  proof -
    from that have "generate_clusters lib' self' faces' embeddings' pk =
        (fst (generate_clusters lib' self' faces' embeddings' pk), Inr result')"
      by (metis prod.collapse)
    then obtain labels c e where
      "result' = [(''success'', RBool True), (''clusters'', RClusters c),
                  (''embeddings'', REmbeddings e)]"
      by (rule generate_clusters_result)
    then show ?thesis
      by (simp add: getitem_def)
  qed
  show "main wld lib a =
     (case prepare wld (device a) of
        Some e \<Rightarrow> Uncaught e
      | None \<Rightarrow>
          (case extract_faces_from_folder wld (image_folder a) (min_size a) (det_thresh a) of
             Inl e \<Rightarrow> Uncaught e
           | Inr faces' \<Rightarrow>
               if faces' = [] then Exited
               else
                 (case np_array (map face_data.embedding faces') of
                    Inl e \<Rightarrow> Uncaught e
                  | Inr embeddings' \<Rightarrow>
                      (case snd (generate_clusters lib
                                   (ClusterGenerator_init (args.algorithm a) (args.eps a)
                                      (args.min_samples a) (args.metric a))
                                   (map face_data_dict faces') embeddings'
                                   ''original_image_path'') of
                         Inl e \<Rightarrow> Uncaught e
                       | Inr result' \<Rightarrow> Uncaught (KeyError ''celebrity_matches'')))))"
    by (simp add: main_def Let_def missing split: option.split sum.split)
qed

text \<open>
  One record, and the command line with the algorithm \<^verbatim>\<open>dbscan\<close>.
\<close>

theorem generate_clusters_keys_witness:
  "generate_clusters example_lib cluster_generator
     [ [(''face_id'', PStr ''a'')] ] [ [1, 0] ] ''face_id'' =
     ([Engine [ [1, 0] ], Algorithm (DBSCAN 0.4 1 ''cosine'') [ [1, 0] ] ],
      Inr [(''success'', RBool True),
           (''clusters'', RClusters [(''person_0'', [PStr ''a''])]),
           (''embeddings'', REmbeddings [(PStr ''a'', [1, 0])])]) \<and>
   map fst [(''success'', RBool True),
            (''clusters'', RClusters [(''person_0'', [PStr ''a''])]),
            (''embeddings'', REmbeddings [(PStr ''a'', [1, 0])])] =
     [''success'', ''clusters'', ''embeddings''] \<and>
   getitem [(''success'', RBool True),
            (''clusters'', RClusters [(''person_0'', [PStr ''a''])]),
            (''embeddings'', REmbeddings [(PStr ''a'', [1, 0])])] ''celebrity_matches'' =
     Inl (KeyError ''celebrity_matches'') \<and>
   main example_world example_lib (example_args \<lparr> args.algorithm := ''dbscan'' \<rparr>) =
     Uncaught (KeyError ''celebrity_matches'')"
proof -
  have gen: "generate_clusters example_lib cluster_generator
     [ [(''face_id'', PStr ''a'')] ] [ [1, 0] ] ''face_id'' =
     ([Engine [ [1, 0] ], Algorithm (DBSCAN 0.4 1 ''cosine'') [ [1, 0] ] ],
      Inr [(''success'', RBool True),
           (''clusters'', RClusters [(''person_0'', [PStr ''a''])]),
           (''embeddings'', REmbeddings [(PStr ''a'', [1, 0])])])"
    by (simp add: model_defs example_defs)
  note T = generate_clusters_keys [of example_lib cluster_generator
      "[ [(''face_id'', PStr ''a'')] ]" "[ [1, 0] ]" "''face_id''"
      "[Engine [ [1, 0] ], Algorithm (DBSCAN 0.4 1 ''cosine'') [ [1, 0] ] ]"
      "[(''success'', RBool True),
        (''clusters'', RClusters [(''person_0'', [PStr ''a''])]),
        (''embeddings'', REmbeddings [(PStr ''a'', [1, 0])])]"
      example_world "example_args \<lparr> args.algorithm := ''dbscan'' \<rparr>"]
  from T gen have c1: "map fst [(''success'', RBool True),
            (''clusters'', RClusters [(''person_0'', [PStr ''a''])]),
            (''embeddings'', REmbeddings [(PStr ''a'', [1, 0])])] =
     [''success'', ''clusters'', ''embeddings''] \<and>
   getitem [(''success'', RBool True),
            (''clusters'', RClusters [(''person_0'', [PStr ''a''])]),
            (''embeddings'', REmbeddings [(PStr ''a'', [1, 0])])] ''celebrity_matches'' =
     Inl (KeyError ''celebrity_matches'')"
    by blast
  from T have c2: "main example_world example_lib
                     (example_args \<lparr> args.algorithm := ''dbscan'' \<rparr>) =
     Uncaught (KeyError ''celebrity_matches'')"
    by (simp add: model_defs example_defs)
  from gen c1 c2 show ?thesis
    by blast
qed

end
